theory Spec2Isabelle
  imports Complex_Main "HOL-Library.Log_Nat"
begin

section \<open>JavaScript values, as far as the accessory handles them\<close>

text \<open>
  The accessory of \<^verbatim>\<open>src/homebridge-http-temperature-humidity.ts\<close> carries the
  numbers of a reading from the response to the cache and on to the host without ever
  computing with them. Numbers are therefore a type parameter \<open>'n\<close> (the doubles of
  JavaScript, or any stand-in for them); the only operation on them is the conversion to
  a string that \<^verbatim>\<open>+\<close> performs, passed to every function as \<open>nts\<close>.

  \<^verbatim>\<open>response.data as TemperatureAndHumidity\<close> is a TypeScript cast with no check at run
  time, so the data of a response is any value the HTTP client delivers: a parsed JSON
  value, or the body as a string.
\<close>

datatype 'n jsvalue =
    JUndefined
  | JNull
  | JBool bool
  | JNum 'n
  | JStr string
  | JArr "'n jsvalue list"
  | JObj "(string \<times> 'n jsvalue) list"

text \<open>
  What a promise rejects with: the error of the HTTP client, or a TypeError thrown in a
  callback. Both are Error objects, so \<^verbatim>\<open>error.message\<close> is a string.
\<close>

datatype error = AxiosError string | TypeError string

fun message :: "error \<Rightarrow> string" where
  "message (AxiosError m) = m"
| "message (TypeError m) = m"

text \<open>
  \<^verbatim>\<open>v.k\<close> for a property name \<open>k\<close> that no prototype defines (the code reads
  \<^verbatim>\<open>temperature\<close> and \<^verbatim>\<open>humidity\<close> only): a TypeError on \<^verbatim>\<open>undefined\<close> and
  \<^verbatim>\<open>null\<close>, the own property of an object (the last one of a repeated key, as
  \<^verbatim>\<open>JSON.parse\<close> keeps it), \<^verbatim>\<open>undefined\<close> otherwise.
\<close>

fun get_prop :: "'n jsvalue \<Rightarrow> string \<Rightarrow> error + 'n jsvalue" where
  "get_prop JUndefined k =
     Inl (TypeError (''Cannot read properties of undefined (reading '' @ [CHR 0x27] @ k @ [CHR 0x27] @ '')''))"
| "get_prop JNull k =
     Inl (TypeError (''Cannot read properties of null (reading '' @ [CHR 0x27] @ k @ [CHR 0x27] @ '')''))"
| "get_prop (JObj kvs) k = Inr (case map_of (rev kvs) k of None \<Rightarrow> JUndefined | Some v \<Rightarrow> v)"
| "get_prop v k = Inr JUndefined"

text \<open>
  \<^verbatim>\<open>Array.prototype.join\<close> over the converted elements: the first conversion that
  throws, from the left, is the error.
\<close>

fun join_strings :: "(error + string) list \<Rightarrow> error + string" where
  "join_strings [] = Inr []"
| "join_strings [r] = r"
| "join_strings (r # rs) =
     (case r of
        Inl e \<Rightarrow> Inl e
      | Inr s \<Rightarrow> (case join_strings rs of Inl e \<Rightarrow> Inl e | Inr t \<Rightarrow> Inr (s @ '','' @ t)))"

text \<open>
  The string a value becomes as the right operand of \<^verbatim>\<open>'...' + v\<close>. A value parsed
  from JSON holds no function, so an object with an own key \<^verbatim>\<open>toString\<close> has no
  callable conversion and \<^verbatim>\<open>+\<close> throws a TypeError; every other object prints as
  \<^verbatim>\<open>[object Object]\<close>, and an array joins its elements (\<^verbatim>\<open>null\<close> and
  \<^verbatim>\<open>undefined\<close> as the empty string).
\<close>

fun js_string :: "('n \<Rightarrow> string) \<Rightarrow> 'n jsvalue \<Rightarrow> error + string" where
  "js_string nts JUndefined = Inr ''undefined''"
| "js_string nts JNull = Inr ''null''"
| "js_string nts (JBool b) = Inr (if b then ''true'' else ''false'')"
| "js_string nts (JNum n) = Inr (nts n)"
| "js_string nts (JStr s) = Inr s"
| "js_string nts (JArr xs) =
     join_strings (map (\<lambda>x. if x = JUndefined \<or> x = JNull then Inr [] else js_string nts x) xs)"
| "js_string nts (JObj kvs) =
     (if ''toString'' \<in> set (map fst kvs)
      then Inl (TypeError ''Cannot convert object to primitive value'')
      else Inr ''[object Object]'')"

definition js_concat :: "('n \<Rightarrow> string) \<Rightarrow> string \<Rightarrow> 'n jsvalue \<Rightarrow> error + string" where
  "js_concat nts s v = (case js_string nts v of Inl e \<Rightarrow> Inl e | Inr t \<Rightarrow> Inr (s @ t))"

text \<open>
  The decimal digits of a natural number (for the status in the message of the HTTP
  client) and of an integer. \<open>int_string\<close> is not part of the accessory: the examples
  below pass it for \<open>nts\<close> where their readings are whole numbers.
\<close>

fun nat_digits :: "nat \<Rightarrow> string" where
  "nat_digits n =
     (if n < 10 then [''0123456789'' ! n]
      else nat_digits (n div 10) @ [''0123456789'' ! (n mod 10)])"

declare nat_digits.simps [simp del]

definition int_string :: "int \<Rightarrow> string" where
  "int_string i = (if i < 0 then ''-'' @ nat_digits (nat (- i)) else nat_digits (nat i))"

section \<open>The numbers of the configuration\<close>

text \<open>
  The refresh interval is the one number the accessory computes with. A number is an IEEE
  754 double: not a number, an infinity, or a finite value, given as the rational it
  stands for. \<^verbatim>\<open>-0\<close> is written as 0: the accessory does nothing that tells them
  apart (both are falsy, and both compare like 0).

  \<open>round_double\<close> is the rounding every arithmetic operation ends with: to the nearest
  double, ties to the even significand. A double has 53 significant bits, its unit in the
  last place is \<open>2 powi q\<close> with \<open>q\<close> at least -1074, and a magnitude that rounds to
  \<open>2 powi 1024\<close> or more is infinite.
\<close>

datatype number = NaN | PosInfinity | NegInfinity | Finite rat

definition round_half_even :: "rat \<Rightarrow> int" where
  "round_half_even r =
     (let f = \<lfloor>r\<rfloor>; d = r - of_int f
      in if d < 1 / 2 then f else if 1 / 2 < d then f + 1 else if even f then f else f + 1)"

text \<open>The exponent \<open>e\<close> of a positive rational: \<open>2 powi e \<le> x < 2 powi (e + 1)\<close>.\<close>

definition ilog2 :: "rat \<Rightarrow> int" where
  "ilog2 x =
     (let (a, b) = quotient_of x; e = bitlen a - bitlen b
      in if 2 powi e \<le> x then e else e - 1)"

definition round_magnitude :: "rat \<Rightarrow> rat" where
  "round_magnitude x =
     (let e = ilog2 x;
          q = max e (- 1022) - 52
      in of_int (round_half_even (x / 2 powi q)) * 2 powi q)"

definition double_limit :: rat where
  "double_limit = 2 powi 1024"

definition round_double :: "rat \<Rightarrow> number" where
  "round_double y =
     (if y = 0 then Finite 0
      else if double_limit \<le> round_magnitude \<bar>y\<bar> then (if y < 0 then NegInfinity else PosInfinity)
      else Finite (if y < 0 then - round_magnitude \<bar>y\<bar> else round_magnitude \<bar>y\<bar>))"

definition negative :: "number \<Rightarrow> bool" where
  "negative a = (case a of NegInfinity \<Rightarrow> True | Finite x \<Rightarrow> x < 0 | _ \<Rightarrow> False)"

text \<open>\<^verbatim>\<open>a * b\<close> on numbers: the exact product, rounded.\<close>

definition js_times :: "number \<Rightarrow> number \<Rightarrow> number" where
  "js_times a b =
     (case (a, b) of
        (Finite x, Finite y) \<Rightarrow> round_double (x * y)
      | _ \<Rightarrow>
          if a = NaN \<or> b = NaN \<or> a = Finite 0 \<or> b = Finite 0 then NaN
          else if negative a = negative b then PosInfinity
          else NegInfinity)"

text \<open>\<^verbatim>\<open>a < b\<close> on numbers, for the theorems that speak of a period below 1000 ms.\<close>

fun js_less :: "number \<Rightarrow> number \<Rightarrow> bool" where
  "js_less (Finite x) (Finite y) = (x < y)"
| "js_less NaN b = False"
| "js_less a NaN = False"
| "js_less a NegInfinity = False"
| "js_less PosInfinity b = False"
| "js_less NegInfinity b = True"
| "js_less a PosInfinity = True"

text \<open>
  What the key \<^verbatim>\<open>refresh\<close> of the configuration can hold: nothing (the key is
  omitted), \<^verbatim>\<open>null\<close>, a boolean, a number or a string. An array or an object there is
  left out.
\<close>

datatype scalar = SUndefined | SNull | SBool bool | SNum number | SStr string

text \<open>\<^verbatim>\<open>a || d\<close>: \<open>d\<close> when \<open>a\<close> is falsy.\<close>

fun truthy :: "scalar \<Rightarrow> bool" where
  "truthy SUndefined = False"
| "truthy SNull = False"
| "truthy (SBool b) = b"
| "truthy (SNum n) = (n \<noteq> NaN \<and> n \<noteq> Finite 0)"
| "truthy (SStr s) = (s \<noteq> [])"

definition js_or :: "scalar \<Rightarrow> scalar \<Rightarrow> scalar" where
  "js_or a d = (if truthy a then a else d)"

text \<open>
  The number a scalar becomes as an operand of \<^verbatim>\<open>*\<close>, and the string it becomes in
  a template literal. How a string is read as a number and how a number is printed are
  the parameters \<open>string_number\<close> and \<open>number_string\<close>.
\<close>

fun to_number :: "(string \<Rightarrow> number) \<Rightarrow> scalar \<Rightarrow> number" where
  "to_number string_number SUndefined = NaN"
| "to_number string_number SNull = Finite 0"
| "to_number string_number (SBool b) = Finite (if b then 1 else 0)"
| "to_number string_number (SNum n) = n"
| "to_number string_number (SStr s) = string_number s"

fun scalar_string :: "(number \<Rightarrow> string) \<Rightarrow> scalar \<Rightarrow> string" where
  "scalar_string number_string SUndefined = ''undefined''"
| "scalar_string number_string SNull = ''null''"
| "scalar_string number_string (SBool b) = (if b then ''true'' else ''false'')"
| "scalar_string number_string (SNum n) = number_string n"
| "scalar_string number_string (SStr s) = s"

section \<open>Promises\<close>

text \<open>
  A promise is modelled by how it settles. A callback runs on a state \<open>'s\<close> (the object
  and the local variables it closes over), may change it, and returns or throws.
\<close>

datatype 'a promise = Rejected error | Resolved 'a

definition then_p ::
  "'a promise \<Rightarrow> ('a \<Rightarrow> 's \<Rightarrow> (error + 'b) \<times> 's) \<Rightarrow> 's \<Rightarrow> 'b promise \<times> 's" where
  "then_p p f s =
     (case p of
        Rejected e \<Rightarrow> (Rejected e, s)
      | Resolved x \<Rightarrow>
          (case f x s of (Inl e, s') \<Rightarrow> (Rejected e, s') | (Inr y, s') \<Rightarrow> (Resolved y, s')))"

definition catch_p ::
  "'a promise \<Rightarrow> (error \<Rightarrow> 's \<Rightarrow> (error + 'a) \<times> 's) \<Rightarrow> 's \<Rightarrow> 'a promise \<times> 's" where
  "catch_p p g s =
     (case p of
        Rejected e \<Rightarrow>
          (case g e s of (Inl e', s') \<Rightarrow> (Rejected e', s') | (Inr y, s') \<Rightarrow> (Resolved y, s'))
      | Resolved x \<Rightarrow> (Resolved x, s))"

section \<open>The host and the accessory\<close>

datatype service = AccessoryInformation | TemperatureSensor | HumiditySensor

datatype characteristic =
  Manufacturer | Model | SerialNumber | CurrentTemperature | CurrentRelativeHumidity

datatype level = Info | Debug

text \<open>
  The calls the accessory makes on the host, in the order it makes them: the services it
  creates, the read handlers it registers (\<^verbatim>\<open>onGet\<close>), the characteristics it sets and
  pushes, the timer it arms and the lines it logs (\<^verbatim>\<open>this.log(...)\<close> logs at the info
  level).
\<close>

datatype 'n effect =
    NewService service string
  | OnGet service characteristic
  | SetCharacteristic service characteristic string
  | UpdateCharacteristic service characteristic "'n jsvalue"
  | SetInterval number
  | Log level string

text \<open>
  The configuration the host passes to the constructor. \<^verbatim>\<open>name\<close> and \<^verbatim>\<open>url\<close> are
  required; an optional key is \<open>None\<close> when it is omitted. The values have the types of
  the fields they are stored in, but for \<^verbatim>\<open>refresh\<close>, which is any scalar
  (\<open>SUndefined\<close> when the key is omitted).
\<close>

record config =
  config_name :: string
  config_url :: string
  config_manufacturer :: "string option"
  config_model :: "string option"
  config_serial :: "string option"
  config_refresh :: scalar
  config_disableHumidity :: "bool option"

text \<open>The example configuration of the readme: every optional key is omitted.\<close>

definition example_config :: config where
  "example_config =
     \<lparr> config_name = ''Temperature and Humidity'',
       config_url = ''http://192.168.178.210/temp/status'',
       config_manufacturer = None,
       config_model = None,
       config_serial = None,
       config_refresh = SUndefined,
       config_disableHumidity = None \<rparr>"

record 'n state =
  temperature :: "'n jsvalue"
  humidity :: "'n jsvalue"

record 'n accessory =
  name :: string
  url :: string
  manufacturer :: string
  model :: string
  serial :: string
  disableHumidity :: bool
  refresh_interval :: scalar
  accessoryState :: "'n state"
  trace :: "'n effect list"

definition emit :: "'n effect list \<Rightarrow> 'n accessory \<Rightarrow> 'n accessory" where
  "emit es this = this\<lparr>trace := trace this @ es\<rparr>"

text \<open>\<^verbatim>\<open>v || d\<close> on an optional string and boolean: \<open>d\<close> when \<open>v\<close> is falsy.\<close>

definition or_string :: "string option \<Rightarrow> string \<Rightarrow> string" where
  "or_string v d = (case v of None \<Rightarrow> d | Some s \<Rightarrow> if s = [] then d else s)"

definition or_boolean :: "bool option \<Rightarrow> bool \<Rightarrow> bool" where
  "or_boolean v d = (case v of None \<Rightarrow> d | Some b \<Rightarrow> if b then b else d)"

definition getRefreshIntervalInMillis :: "(string \<Rightarrow> number) \<Rightarrow> 'n accessory \<Rightarrow> number" where
  "getRefreshIntervalInMillis string_number this =
     js_times (to_number string_number (refresh_interval this)) (Finite 1000)"

text \<open>
  The constructor, up to its return. Its call of \<^verbatim>\<open>updateAllStates\<close> only issues the
  request before the constructor returns; the rest of that call runs when the request has
  settled, as the event \<open>InitialUpdate\<close> below.
\<close>

definition constructor ::
  "(number \<Rightarrow> string) \<Rightarrow> (string \<Rightarrow> number) \<Rightarrow> config \<Rightarrow> ('n::zero) accessory" where
  "constructor number_string string_number config =
     (let this =
        \<lparr> name = config_name config,
          url = config_url config,
          manufacturer = or_string (config_manufacturer config) ''HttpTemperatureHumidity'',
          model = or_string (config_model config) ''Default'',
          serial = or_string (config_serial config) ''18981898'',
          disableHumidity = or_boolean (config_disableHumidity config) False,
          refresh_interval = js_or (config_refresh config) (SNum (Finite 30)),
          accessoryState = \<lparr> temperature = JNum 0, humidity = JNum 0 \<rparr>,
          trace = [] \<rparr>;
        this = emit [NewService TemperatureSensor ''Temperature'',
                     OnGet TemperatureSensor CurrentTemperature] this;
        this = emit [NewService HumiditySensor ''Humidity''] this;
        this = (if disableHumidity this \<noteq> True
                then emit [OnGet HumiditySensor CurrentRelativeHumidity] this
                else this);
        this = emit [NewService AccessoryInformation [],
                     SetCharacteristic AccessoryInformation Manufacturer (manufacturer this),
                     SetCharacteristic AccessoryInformation Model (model this),
                     SetCharacteristic AccessoryInformation SerialNumber (serial this)] this;
        this = emit [SetInterval (getRefreshIntervalInMillis string_number this)] this
      in emit [Log Info (name this @ '' finished initializing!''),
               Log Debug (''Will refresh state every '' @
                            scalar_string number_string (refresh_interval this) @ ''sec'')]
           this)"

definition identify :: "'n accessory \<Rightarrow> unit \<times> 'n accessory" where
  "identify this = ((), emit [Log Info ''Identify!''] this)"

definition getServices :: "'n accessory \<Rightarrow> service list \<times> 'n accessory" where
  "getServices this =
     (let services = [AccessoryInformation, TemperatureSensor];
          services = (if disableHumidity this \<noteq> True then services @ [HumiditySensor] else services)
      in (services, this))"

definition getCurrentTemperature ::
  "('n \<Rightarrow> string) \<Rightarrow> 'n accessory \<Rightarrow> (error + 'n jsvalue) \<times> 'n accessory" where
  "getCurrentTemperature nts this =
     (let currentTemperature = temperature (accessoryState this)
      in case js_concat nts ''getCurrentTemperature: '' currentTemperature of
           Inl e \<Rightarrow> (Inl e, this)
         | Inr line \<Rightarrow> (Inr currentTemperature, emit [Log Info line] this))"

definition getCurrentRelativeHumidity ::
  "('n \<Rightarrow> string) \<Rightarrow> 'n accessory \<Rightarrow> (error + 'n jsvalue) \<times> 'n accessory" where
  "getCurrentRelativeHumidity nts this =
     (let currentRelativeHumidity = humidity (accessoryState this)
      in case js_concat nts ''getCurrentRelativeHumidity: '' currentRelativeHumidity of
           Inl e \<Rightarrow> (Inl e, this)
         | Inr line \<Rightarrow> (Inr currentRelativeHumidity, emit [Log Info line] this))"

section \<open>Fetching and refreshing\<close>

text \<open>
  What \<^verbatim>\<open>axios.get(this.url)\<close> settles with is the argument \<open>get\<close> of the functions
  below: the HTTP client is not part of the repository. Of the response the code reads
  \<^verbatim>\<open>data\<close> only; \<open>status\<close> is kept to name a response in the theorems.
\<close>

record 'n axios_response =
  status :: nat
  data :: "'n jsvalue"

text \<open>
  The HTTP client is a library the repository depends on; its code is not in the
  repository. \<open>axios_get\<close> is how a request of the client settles with the options
  the code leaves at their defaults, from the exchange on the network: the request fails
  without a response (\<open>NetworkError\<close>), or a response arrives with a status and a body.
  The client rejects a network error and a status that \<^verbatim>\<open>validateStatus\<close> refuses
  (one outside 200..299); it resolves every other response, with the body put through
  \<^verbatim>\<open>JSON.parse\<close> (the parameter \<open>parse\<close>, \<open>None\<close> where it throws) and, where the
  body does not parse, with the body as the string it is.
\<close>

datatype exchange = NetworkError string | HttpResponse nat string

definition validateStatus :: "nat \<Rightarrow> bool" where
  "validateStatus st = (200 \<le> st \<and> st < 300)"

definition axios_get ::
  "(string \<Rightarrow> 'n jsvalue option) \<Rightarrow> exchange \<Rightarrow> 'n axios_response promise" where
  "axios_get parse x =
     (case x of
        NetworkError m \<Rightarrow> Rejected (AxiosError m)
      | HttpResponse st body \<Rightarrow>
          if validateStatus st
          then Resolved \<lparr> status = st,
                           data = (case parse body of None \<Rightarrow> JStr body | Some v \<Rightarrow> v) \<rparr>
          else Rejected (AxiosError (''Request failed with status code '' @ nat_digits st)))"

text \<open>The two failures of a request: no response, or a status outside 200..299.\<close>

definition http_failed :: "exchange \<Rightarrow> bool" where
  "http_failed x = (case x of NetworkError m \<Rightarrow> True | HttpResponse st body \<Rightarrow> st < 200 \<or> 300 \<le> st)"

text \<open>
  \<^verbatim>\<open>callServer\<close>: the local variable starts as \<^verbatim>\<open>new TemperatureAndHumidity()\<close>, the
  callback overwrites it with \<^verbatim>\<open>response.data\<close>, and \<^verbatim>\<open>await\<close> throws what the
  promise rejected with.
\<close>

definition callServer ::
  "('n::zero) axios_response promise \<Rightarrow> 'n accessory \<Rightarrow> 'n jsvalue promise \<times> 'n accessory" where
  "callServer get this =
     (let temparatureAndHumidity = JObj [(''temperature'', JNum 0), (''humidity'', JNum 0)];
          (p, (temparatureAndHumidity, this)) =
             then_p get (\<lambda>response (t, this). (Inr (), (data response, this)))
               (temparatureAndHumidity, this)
      in case p of
           Rejected e \<Rightarrow> (Rejected e, this)
         | Resolved u \<Rightarrow> (Resolved temparatureAndHumidity, this))"

text \<open>
  The \<^verbatim>\<open>then\<close> callback of \<^verbatim>\<open>updateAllStates\<close>, on the pair of the local variable
  \<^verbatim>\<open>updated\<close> and the object. The argument of \<^verbatim>\<open>log.debug\<close> is evaluated first, left
  to right, and may throw before anything is logged or assigned.
\<close>

definition onResponse ::
  "('n \<Rightarrow> string) \<Rightarrow> 'n jsvalue \<Rightarrow> bool \<times> 'n accessory \<Rightarrow> (error + unit) \<times> bool \<times> 'n accessory" where
  "onResponse nts temperatureAndHumidity = (\<lambda>(updated, this).
     case get_prop temperatureAndHumidity ''temperature'' of
       Inl e \<Rightarrow> (Inl e, updated, this)
     | Inr t \<Rightarrow>
     (case js_concat nts ''CallServerResponse: Temperature: '' t of
       Inl e \<Rightarrow> (Inl e, updated, this)
     | Inr s \<Rightarrow>
     (case get_prop temperatureAndHumidity ''humidity'' of
       Inl e \<Rightarrow> (Inl e, updated, this)
     | Inr h \<Rightarrow>
     (case js_concat nts (s @ '' Humidity: '') h of
       Inl e \<Rightarrow> (Inl e, updated, this)
     | Inr line \<Rightarrow>
     (let this = emit [Log Debug line] this
      in case get_prop temperatureAndHumidity ''temperature'' of
       Inl e \<Rightarrow> (Inl e, updated, this)
     | Inr t' \<Rightarrow>
     (let this = this\<lparr>accessoryState := (accessoryState this)\<lparr>temperature := t'\<rparr>\<rparr>
      in case get_prop temperatureAndHumidity ''humidity'' of
       Inl e \<Rightarrow> (Inl e, updated, this)
     | Inr h' \<Rightarrow>
     (let this = this\<lparr>accessoryState := (accessoryState this)\<lparr>humidity := h'\<rparr>\<rparr>
      in (Inr (), True, this))))))))"

text \<open>The \<^verbatim>\<open>catch\<close> callback of \<^verbatim>\<open>updateAllStates\<close>.\<close>

definition onError :: "error \<Rightarrow> bool \<times> 'n accessory \<Rightarrow> (error + unit) \<times> bool \<times> 'n accessory" where
  "onError e = (\<lambda>(updated, this).
     (Inr (), updated, emit [Log Info (''updateAllStates Error : '' @ message e)] this))"

text \<open>
  The line the \<^verbatim>\<open>then\<close> callback logs at the debug level for the data of a
  response, or the TypeError the evaluation of that line throws: the first four steps of
  \<open>onResponse\<close> on their own, for the lemmas below.
\<close>

definition debug_line :: "('n \<Rightarrow> string) \<Rightarrow> 'n jsvalue \<Rightarrow> error + string" where
  "debug_line nts d =
     (case get_prop d ''temperature'' of
        Inl e \<Rightarrow> Inl e
      | Inr t \<Rightarrow>
      (case js_concat nts ''CallServerResponse: Temperature: '' t of
        Inl e \<Rightarrow> Inl e
      | Inr s \<Rightarrow>
      (case get_prop d ''humidity'' of
        Inl e \<Rightarrow> Inl e
      | Inr h \<Rightarrow> js_concat nts (s @ '' Humidity: '') h)))"

definition updateAllStates ::
  "('n \<Rightarrow> string) \<Rightarrow> ('n::zero) axios_response promise \<Rightarrow> 'n accessory \<Rightarrow> bool promise \<times> 'n accessory" where
  "updateAllStates nts get this =
     (let updated = False;
          (p, this) = callServer get this;
          (p, (updated, this)) = then_p p (onResponse nts) (updated, this);
          (p, (updated, this)) = catch_p p onError (updated, this)
      in case p of
           Rejected e \<Rightarrow> (Rejected e, this)
         | Resolved u \<Rightarrow> (Resolved updated, this))"

text \<open>
  The callback of \<^verbatim>\<open>setInterval\<close>, from the tick to the end of the \<^verbatim>\<open>then\<close>
  callback that pushes the cache to the host. That callback takes no argument: it does not
  look at the boolean \<^verbatim>\<open>updateAllStates\<close> resolved with.
\<close>

definition push :: "'n accessory \<Rightarrow> 'n accessory" where
  "push this =
     (let this = emit [UpdateCharacteristic TemperatureSensor CurrentTemperature
                         (temperature (accessoryState this))] this;
          this = (if disableHumidity this \<noteq> True
                  then emit [UpdateCharacteristic HumiditySensor CurrentRelativeHumidity
                               (humidity (accessoryState this))] this
                  else this)
      in emit [Log Debug ''Triggering updateAccessoryState''] this)"

definition tick ::
  "('n \<Rightarrow> string) \<Rightarrow> ('n::zero) axios_response promise \<Rightarrow> 'n accessory \<Rightarrow> 'n accessory" where
  "tick nts get this =
     (let (p, this) = updateAllStates nts get this;
          (p, this) = then_p p (\<lambda>u this. (Inr (), push this)) this
      in this)"

text \<open>
  What happens to a constructed accessory: the request of the constructor settles, a
  timer tick runs with the request it made settled, or the host calls a method. A run is a
  sequence of these, each to its end before the next (the order in which the callbacks
  run on the event loop).
\<close>

datatype 'n event =
    InitialUpdate "'n axios_response promise"
  | TimerTick "'n axios_response promise"
  | HostGetTemperature
  | HostGetHumidity
  | HostGetServices
  | HostIdentify

fun step :: "('n \<Rightarrow> string) \<Rightarrow> ('n::zero) accessory \<Rightarrow> 'n event \<Rightarrow> 'n accessory" where
  "step nts this (InitialUpdate get) = snd (updateAllStates nts get this)"
| "step nts this (TimerTick get) = tick nts get this"
| "step nts this HostGetTemperature = snd (getCurrentTemperature nts this)"
| "step nts this HostGetHumidity = snd (getCurrentRelativeHumidity nts this)"
| "step nts this HostGetServices = snd (getServices this)"
| "step nts this HostIdentify = snd (identify this)"

definition run :: "('n \<Rightarrow> string) \<Rightarrow> ('n::zero) accessory \<Rightarrow> 'n event list \<Rightarrow> 'n accessory" where
  "run nts this evs = foldl (step nts) this evs"

section \<open>What a fetch stores\<close>

text \<open>
  The definitions of this section describe the code, in terms of the data of a response
  alone: when the \<^verbatim>\<open>then\<close> callback of \<^verbatim>\<open>updateAllStates\<close> runs to its end
  and what it then stores. They are not the readings of the specification, which follow in
  the next section; data that is no reading at all, such as the string of a body that did
  not parse, is stored like any other, as two fields that are \<^verbatim>\<open>undefined\<close>.

  A value is printable when \<^verbatim>\<open>'...' + v\<close> does not throw.
\<close>

fun printable :: "'n jsvalue \<Rightarrow> bool" where
  "printable (JArr xs) = list_all printable xs"
| "printable (JObj kvs) = (''toString'' \<notin> set (map fst kvs))"
| "printable v = True"

text \<open>The property \<open>k\<close> of a value that has properties.\<close>

definition field :: "'n jsvalue \<Rightarrow> string \<Rightarrow> 'n jsvalue" where
  "field d k =
     (case d of
        JObj kvs \<Rightarrow> (case map_of (rev kvs) k of None \<Rightarrow> JUndefined | Some v \<Rightarrow> v)
      | _ \<Rightarrow> JUndefined)"

definition fields :: "'n jsvalue \<Rightarrow> 'n state" where
  "fields d = \<lparr> temperature = field d ''temperature'', humidity = field d ''humidity'' \<rparr>"

text \<open>
  What the callback stores for the data of a response: nothing when the data is
  \<^verbatim>\<open>null\<close> or \<^verbatim>\<open>undefined\<close> or one of the two fields cannot be printed (the
  callback throws before it assigns), and the two fields as they are otherwise (a missing
  field is \<^verbatim>\<open>undefined\<close>).
\<close>

definition reading_of :: "'n jsvalue \<Rightarrow> 'n state option" where
  "reading_of d =
     (if d = JUndefined \<or> d = JNull then None
      else if printable (field d ''temperature'') \<and> printable (field d ''humidity'')
           then Some (fields d)
           else None)"

text \<open>What a settled request makes the cache hold: nothing new when it was rejected.\<close>

definition delivered :: "'n axios_response promise \<Rightarrow> 'n state option" where
  "delivered get =
     (case get of Rejected e \<Rightarrow> None | Resolved response \<Rightarrow> reading_of (data response))"

fun reading_of_event :: "'n event \<Rightarrow> 'n state option" where
  "reading_of_event (InitialUpdate get) = delivered get"
| "reading_of_event (TimerTick get) = delivered get"
| "reading_of_event ev = None"

text \<open>What the fetches of a run stored, oldest first, and the last of it.\<close>

definition readings :: "'n event list \<Rightarrow> 'n state list" where
  "readings evs = List.map_filter reading_of_event evs"

definition last_reading :: "('n::zero) event list \<Rightarrow> 'n state" where
  "last_reading evs =
     (if readings evs = [] then \<lparr> temperature = JNum 0, humidity = JNum 0 \<rparr>
      else last (readings evs))"

section \<open>Readings, as the specification speaks of them\<close>

text \<open>
  These definitions follow the words of the specification, not the source. A fetch
  succeeds with a Reading "constructed directly from its temperature and humidity numeric
  fields"; a network error, a status outside 2xx and a malformed body are failures. The
  data of a response is a reading when both fields are numbers; a body that did not parse
  reaches the accessory as a string and is none.
\<close>

definition spec_reading :: "'n jsvalue \<Rightarrow> 'n state option" where
  "spec_reading d =
     (case (field d ''temperature'', field d ''humidity'') of
        (JNum t, JNum h) \<Rightarrow> Some \<lparr> temperature = JNum t, humidity = JNum h \<rparr>
      | _ \<Rightarrow> None)"

definition spec_delivered :: "'n axios_response promise \<Rightarrow> 'n state option" where
  "spec_delivered get =
     (case get of Rejected e \<Rightarrow> None | Resolved response \<Rightarrow> spec_reading (data response))"

fun spec_reading_of_event :: "'n event \<Rightarrow> 'n state option" where
  "spec_reading_of_event (InitialUpdate get) = spec_delivered get"
| "spec_reading_of_event (TimerTick get) = spec_delivered get"
| "spec_reading_of_event ev = None"

definition spec_readings :: "'n event list \<Rightarrow> 'n state list" where
  "spec_readings evs = List.map_filter spec_reading_of_event evs"

text \<open>
  "The last successfully parsed reading, or the zero-value default if no fetch has ever
  succeeded."
\<close>

definition spec_last_reading :: "('n::zero) event list \<Rightarrow> 'n state" where
  "spec_last_reading evs =
     (if spec_readings evs = [] then \<lparr> temperature = JNum 0, humidity = JNum 0 \<rparr>
      else last (spec_readings evs))"

text \<open>
  An event of an endpoint that keeps to the format of the readme: a request that
  resolves carries a reading.
\<close>

fun answers_reading :: "'n event \<Rightarrow> bool" where
  "answers_reading (InitialUpdate (Resolved response)) = (spec_reading (data response) \<noteq> None)"
| "answers_reading (TimerTick (Resolved response)) = (spec_reading (data response) \<noteq> None)"
| "answers_reading ev = True"

text \<open>The calls on the host that register or push something of the humidity service.\<close>

definition humidity_call :: "'n effect \<Rightarrow> bool" where
  "humidity_call x =
     (case x of
        OnGet s c \<Rightarrow> s = HumiditySensor
      | UpdateCharacteristic s c v \<Rightarrow> s = HumiditySensor
      | _ \<Rightarrow> False)"

section \<open>Rounding\<close>

lemma ilog2_lower: "0 < x \<Longrightarrow> 2 powi (ilog2 x) \<le> x"
proof -
  assume pos: "0 < x"
  obtain a b where q: "quotient_of x = (a, b)" by (cases "quotient_of x")
  have b: "0 < b" using quotient_of_denom_pos [OF q] .
  have x: "x = of_int a / of_int b" using quotient_of_div [OF q] .
  have a: "0 < a" using pos b x by (simp add: zero_less_divide_iff)
  have la: "1 \<le> bitlen a" and lb: "1 \<le> bitlen b"
    using a b by (simp_all add: bitlen_alt_def)
  have "(2::rat) ^ nat (bitlen a - 1) \<le> of_int a"
    using bitlen_bounds [OF a] by (metis of_int_le_iff of_int_numeral of_int_power)
  moreover have "of_int b \<le> (2::rat) ^ nat (bitlen b)"
    using bitlen_bounds [OF b] by (metis less_imp_le of_int_le_iff of_int_numeral of_int_power)
  ultimately have "(2::rat) ^ nat (bitlen a - 1) / 2 ^ nat (bitlen b) \<le> of_int a / of_int b"
    using a b by (intro frac_le) simp_all
  moreover have "(2::rat) powi (bitlen a - bitlen b - 1) = 2 ^ nat (bitlen a - 1) / 2 ^ nat (bitlen b)"
  proof -
    have "(2::rat) powi (bitlen a - bitlen b - 1) = 2 powi ((bitlen a - 1) - bitlen b)"
      by (simp add: algebra_simps)
    also have "\<dots> = 2 powi (bitlen a - 1) / 2 powi (bitlen b)"
      by (rule power_int_diff) simp
    also have "\<dots> = 2 ^ nat (bitlen a - 1) / 2 ^ nat (bitlen b)"
      using la lb by (simp add: power_int_def)
    finally show ?thesis .
  qed
  ultimately have low: "(2::rat) powi (bitlen a - bitlen b - 1) \<le> x"
    using x by simp
  show ?thesis
    using low by (simp add: ilog2_def q Let_def)
qed

lemma ilog2_upper: "0 < x \<Longrightarrow> x < 2 powi (ilog2 x + 1)"
proof -
  assume pos: "0 < x"
  obtain a b where q: "quotient_of x = (a, b)" by (cases "quotient_of x")
  have b: "0 < b" using quotient_of_denom_pos [OF q] .
  have x: "x = of_int a / of_int b" using quotient_of_div [OF q] .
  have a: "0 < a" using pos b x by (simp add: zero_less_divide_iff)
  have la: "1 \<le> bitlen a" and lb: "1 \<le> bitlen b"
    using a b by (simp_all add: bitlen_alt_def)
  have "of_int a < (2::rat) ^ nat (bitlen a)"
    using bitlen_bounds [OF a] by (metis of_int_less_iff of_int_numeral of_int_power)
  moreover have "(2::rat) ^ nat (bitlen b - 1) \<le> of_int b"
    using bitlen_bounds [OF b] by (metis of_int_le_iff of_int_numeral of_int_power)
  ultimately have "of_int a / of_int b < (2::rat) ^ nat (bitlen a) / 2 ^ nat (bitlen b - 1)"
    using a b by (intro frac_less) simp_all
  moreover have "(2::rat) powi (bitlen a - bitlen b + 1) = 2 ^ nat (bitlen a) / 2 ^ nat (bitlen b - 1)"
  proof -
    have "(2::rat) powi (bitlen a - bitlen b + 1) = 2 powi (bitlen a - (bitlen b - 1))"
      by (simp add: algebra_simps)
    also have "\<dots> = 2 powi (bitlen a) / 2 powi (bitlen b - 1)"
      by (rule power_int_diff) simp
    also have "\<dots> = 2 ^ nat (bitlen a) / 2 ^ nat (bitlen b - 1)"
      using la lb by (simp add: power_int_def)
    finally show ?thesis .
  qed
  ultimately have up: "x < (2::rat) powi (bitlen a - bitlen b + 1)"
    using x by simp
  show ?thesis
    using up by (auto simp: ilog2_def q Let_def)
qed

lemma round_half_even_floor: "\<lfloor>r\<rfloor> \<le> round_half_even r"
  by (simp add: round_half_even_def Let_def)

lemma round_half_even_of_int: "round_half_even (of_int k) = k"
  by (simp add: round_half_even_def Let_def)

lemma round_half_even_ge: "of_int k \<le> r \<Longrightarrow> k \<le> round_half_even r"
proof -
  assume "of_int k \<le> r"
  then have "k \<le> \<lfloor>r\<rfloor>" by (simp add: le_floor_iff)
  then show ?thesis using round_half_even_floor [of r] by linarith
qed

lemma round_magnitude_nonneg: "0 \<le> x \<Longrightarrow> 0 \<le> round_magnitude x"
proof -
  assume x: "0 \<le> x"
  define q where "q = max (ilog2 x) (- 1022) - 52"
  have "of_int 0 \<le> x / 2 powi q" using x by simp
  then have "0 \<le> round_half_even (x / 2 powi q)" by (rule round_half_even_ge)
  then have "0 \<le> of_int (round_half_even (x / 2 powi q)) * (2::rat) powi q" by simp
  then show ?thesis unfolding round_magnitude_def Let_def q_def .
qed

lemma round_magnitude_int:
  assumes "0 < M" and "M < 2 ^ 53"
  shows "round_magnitude (of_int M) = of_int M"
proof -
  define e where "e = ilog2 (rat_of_int M)"
  define q where "q = max e (- 1022) - 52"
  have pos: "0 < rat_of_int M" using assms by simp
  have "2 powi e \<le> rat_of_int M" unfolding e_def by (rule ilog2_lower [OF pos])
  moreover have "rat_of_int M < 2 ^ 53"
    using assms(2) by (metis of_int_less_iff of_int_numeral of_int_power)
  ultimately have "(2::rat) powi e < 2 powi 53" by simp
  then have "e < 53" by (rule power_int_le_imp_less_exp [rotated]) simp_all
  then have "q \<le> 0" by (simp add: q_def)
  then have k: "q = - int (nat (- q))" by simp
  have p: "(2::rat) powi q = 1 / 2 ^ nat (- q)"
    by (subst k) (simp only: power_int_minus_divide power_int_of_nat)
  have "rat_of_int M / 2 powi q = of_int (M * 2 ^ nat (- q))"
    unfolding p by simp
  then have "round_half_even (rat_of_int M / 2 powi q) = M * 2 ^ nat (- q)"
    by (simp only: round_half_even_of_int)
  then have "of_int (round_half_even (rat_of_int M / 2 powi q)) * (2::rat) powi q = of_int M"
    unfolding p by simp
  then show ?thesis unfolding round_magnitude_def Let_def e_def q_def .
qed

lemma round_magnitude_at_least:
  assumes "1000 \<le> y"
  shows "1000 \<le> round_magnitude y"
proof -
  define e where "e = ilog2 y"
  define q where "q = max e (- 1022) - 52"
  define n where "n = round_half_even (y / 2 powi q)"
  have pos: "0 < y" using assms by simp
  have low: "2 powi e \<le> y" using ilog2_lower [OF pos] by (simp add: e_def)
  have "1000 \<le> of_int n * (2::rat) powi q"
  proof (cases "q \<le> 3")
    case True
    have k: "1000 / (2::rat) powi q = of_int (125 * 2 ^ nat (3 - q))"
    proof -
      have "(2::rat) powi (3 - q) = 2 powi 3 / 2 powi q" by (rule power_int_diff) simp
      moreover have "(2::rat) powi (3 - q) = 2 ^ nat (3 - q)"
        using True by (simp add: power_int_nonneg_exp)
      ultimately show ?thesis by simp
    qed
    have "1000 / 2 powi q \<le> y / 2 powi q" using assms by (simp add: divide_right_mono)
    then have "125 * 2 ^ nat (3 - q) \<le> n"
      unfolding n_def k by (rule round_half_even_ge)
    then have "rat_of_int (125 * 2 ^ nat (3 - q)) \<le> of_int n"
      by (simp only: of_int_le_iff)
    then have "of_int (125 * 2 ^ nat (3 - q)) * (2::rat) powi q \<le> of_int n * 2 powi q"
      by (rule mult_right_mono) simp
    then show ?thesis unfolding k [symmetric] by simp
  next
    case False
    then have qe: "q = e - 52" by (simp add: q_def)
    have "(2::rat) powi 52 = 2 powi e / 2 powi q"
      unfolding qe using power_int_diff [of "2::rat" e "e - 52"] by simp
    also have "\<dots> \<le> y / 2 powi q" using low by (simp add: divide_right_mono)
    finally have "of_int (2 ^ 52) \<le> y / (2::rat) powi q" by simp
    then have "2 ^ 52 \<le> n" unfolding n_def by (rule round_half_even_ge)
    then have "1000 \<le> n" by simp
    then have n: "(1000::rat) \<le> of_int n" by (metis of_int_le_iff of_int_numeral)
    have "(2::rat) powi 0 \<le> 2 powi q" using False by (intro power_int_increasing) simp_all
    then have "(1::rat) \<le> 2 powi q" by simp
    then have "1000 * 1 \<le> of_int n * (2::rat) powi q"
      using n by (intro mult_mono) simp_all
    then show ?thesis by simp
  qed
  then show ?thesis unfolding round_magnitude_def Let_def e_def q_def n_def .
qed

lemma double_limit_large: "2 ^ 53 \<le> double_limit"
proof -
  have "(2::rat) powi 53 \<le> 2 powi 1024" by (rule power_int_increasing) simp_all
  then show ?thesis by (simp only: double_limit_def power_int_numeral)
qed

lemma round_double_int:
  assumes "\<bar>M\<bar> < 2 ^ 53"
  shows "round_double (of_int M) = Finite (of_int M)"
proof (cases "M = 0")
  case True
  then show ?thesis by (simp add: round_double_def)
next
  case False
  have m: "round_magnitude (of_int \<bar>M\<bar>) = of_int \<bar>M\<bar>"
    using round_magnitude_int [of "\<bar>M\<bar>"] False assms by simp
  have "rat_of_int \<bar>M\<bar> < 2 ^ 53"
    using assms by (metis of_int_less_iff of_int_numeral of_int_power)
  then have small: "\<not> double_limit \<le> rat_of_int \<bar>M\<bar>"
    using double_limit_large by linarith
  have a: "\<bar>rat_of_int M\<bar> = of_int \<bar>M\<bar>" by simp
  have "round_double (of_int M) = Finite (if rat_of_int M < 0 then - of_int \<bar>M\<bar> else of_int \<bar>M\<bar>)"
    unfolding round_double_def a m using False small by simp
  then show ?thesis by simp
qed

lemma round_double_negative: "y < 0 \<Longrightarrow> js_less (round_double y) (Finite 1000)"
  using round_magnitude_nonneg [of "\<bar>y\<bar>"] by (simp add: round_double_def)

lemma round_double_at_least: "1000 \<le> y \<Longrightarrow> \<not> js_less (round_double y) (Finite 1000)"
  using round_magnitude_at_least [of y] by (simp add: round_double_def)

text \<open>Where the exact product is no double, the product is the double next to it.\<close>

lemma times_rounds:
  "js_times (Finite (2 ^ 53 - 1)) (Finite 1000) = Finite 9007199254740990976"
  by code_simp

lemma times_1000:
  "js_times (Finite x) (Finite 1000) = round_double (x * 1000)"
  by (simp add: js_times_def)

lemma round_double_whole:
  "\<bar>n\<bar> * 1000 < 2 ^ 53 \<Longrightarrow> round_double (of_int n * 1000) = Finite (of_int (n * 1000))"
  using round_double_int [of "n * 1000"] by (simp add: abs_mult)

lemma round_double_0: "round_double 0 = Finite 0"
  by (simp add: round_double_def)

lemma round_double_30000: "round_double 30000 = Finite 30000"
  using round_double_int [of 30000] by simp

lemma round_double_5000: "round_double 5000 = Finite 5000"
  using round_double_int [of 5000] by simp

lemma round_double_1000: "round_double 1000 = Finite 1000"
  using round_double_int [of 1000] by simp

lemma round_double_500: "round_double 500 = Finite 500"
  using round_double_int [of 500] by simp

lemma round_double_minus_1000: "round_double (- 1000) = Finite (- 1000)"
  using round_double_int [of "- 1000"] by simp

section \<open>Printing and reading values\<close>

lemma join_strings_ok:
  "(\<exists>s. join_strings rs = Inr s) = list_all (\<lambda>r. \<exists>s. r = Inr s) rs"
  by (induction rs rule: join_strings.induct) (auto split: sum.splits)

lemma js_string_printable: "(\<exists>s. js_string nts v = Inr s) = printable v"
proof (induction nts v rule: js_string.induct)
  case (6 nts xs)
  have elem: "(\<exists>s. (if x = JUndefined \<or> x = JNull then Inr [] else js_string nts x) = Inr s) = printable x"
    if "x \<in> set xs" for x
    using 6 [OF that] by (cases "x = JUndefined \<or> x = JNull") auto
  have "(\<exists>s. js_string nts (JArr xs) = Inr s) =
        list_all ((\<lambda>r. \<exists>s. r = Inr s) \<circ>
          (\<lambda>x. if x = JUndefined \<or> x = JNull then Inr [] else js_string nts x)) xs"
    by (simp only: js_string.simps join_strings_ok list.pred_map)
  also have "\<dots> = list_all printable xs"
    by (rule list.pred_cong) (simp_all add: elem)
  finally show ?case by simp
qed simp_all

lemma js_concat_printable: "(\<exists>s. js_concat nts p v = Inr s) = printable v"
  using js_string_printable [of nts v] by (auto simp: js_concat_def split: sum.splits)

lemma js_concat_Inl: "js_concat nts p v = Inl e \<Longrightarrow> \<not> printable v"
  using js_concat_printable [of nts p v] by auto

lemma js_concat_Inr: "js_concat nts p v = Inr s \<Longrightarrow> printable v"
  using js_concat_printable [of nts p v] by auto

lemma get_prop_field:
  "d \<noteq> JUndefined \<Longrightarrow> d \<noteq> JNull \<Longrightarrow> get_prop d k = Inr (field d k)"
  by (cases d) (simp_all add: field_def)

lemma debug_line_reading:
  "debug_line nts d = Inr line \<Longrightarrow> reading_of d = Some (fields d)"
proof (cases "d = JUndefined \<or> d = JNull")
  case True
  then show "debug_line nts d = Inr line \<Longrightarrow> ?thesis"
    by (auto simp: debug_line_def)
next
  case False
  then have g: "get_prop d k = Inr (field d k)" for k
    by (simp add: get_prop_field)
  show "debug_line nts d = Inr line \<Longrightarrow> ?thesis"
    using False
    by (auto simp: debug_line_def reading_of_def g split: sum.splits dest: js_concat_Inr)
qed

lemma debug_line_error:
  "debug_line nts d = Inl e \<Longrightarrow> reading_of d = None"
proof (cases "d = JUndefined \<or> d = JNull")
  case True
  then show ?thesis by (simp add: reading_of_def)
next
  case False
  then have g: "get_prop d k = Inr (field d k)" for k
    by (simp add: get_prop_field)
  assume "debug_line nts d = Inl e"
  then show ?thesis
    using False
    by (auto simp: debug_line_def reading_of_def g split: sum.splits dest: js_concat_Inl)
qed

section \<open>What one fetch does\<close>

lemma callServer_eq:
  "callServer get this =
     (case get of Rejected e \<Rightarrow> (Rejected e, this) | Resolved r \<Rightarrow> (Resolved (data r), this))"
  by (simp add: callServer_def then_p_def split: promise.split)

lemma onResponse_eq:
  "onResponse nts d (u, this) =
     (case debug_line nts d of
        Inl e \<Rightarrow> (Inl e, u, this)
      | Inr line \<Rightarrow> (Inr (), True, (emit [Log Debug line] this)\<lparr>accessoryState := fields d\<rparr>))"
proof (cases "d = JUndefined \<or> d = JNull")
  case True
  then show ?thesis
    by (auto simp: onResponse_def debug_line_def)
next
  case False
  then have g: "get_prop d k = Inr (field d k)" for k
    by (simp add: get_prop_field)
  show ?thesis
    by (simp add: onResponse_def debug_line_def fields_def emit_def g split: sum.split)
qed

lemma updateAllStates_Rejected:
  "updateAllStates nts (Rejected e) this =
     (Resolved False, emit [Log Info (''updateAllStates Error : '' @ message e)] this)"
  by (simp add: updateAllStates_def callServer_eq then_p_def catch_p_def onError_def)

lemma updateAllStates_Resolved:
  "updateAllStates nts (Resolved response) this =
     (case debug_line nts (data response) of
        Inl e \<Rightarrow> (Resolved False, emit [Log Info (''updateAllStates Error : '' @ message e)] this)
      | Inr line \<Rightarrow>
          (Resolved True, (emit [Log Debug line] this)\<lparr>accessoryState := fields (data response)\<rparr>))"
  by (simp add: updateAllStates_def callServer_eq then_p_def catch_p_def onResponse_eq onError_def
        split: sum.split)

lemma tick_eq:
  "tick nts get this = push (snd (updateAllStates nts get this))"
  by (cases get)
     (simp_all add: tick_def updateAllStates_Rejected updateAllStates_Resolved then_p_def
        split: sum.split)

lemma accessoryState_emit [simp]: "accessoryState (emit es this) = accessoryState this"
  by (simp add: emit_def)

lemma disableHumidity_emit [simp]: "disableHumidity (emit es this) = disableHumidity this"
  by (simp add: emit_def)

lemma trace_emit [simp]: "trace (emit es this) = trace this @ es"
  by (simp add: emit_def)

lemma accessoryState_push [simp]: "accessoryState (push this) = accessoryState this"
  by (simp add: push_def Let_def)

lemma disableHumidity_push [simp]: "disableHumidity (push this) = disableHumidity this"
  by (simp add: push_def Let_def)

lemma trace_push:
  "trace (push this) =
     trace this @
     [UpdateCharacteristic TemperatureSensor CurrentTemperature (temperature (accessoryState this))] @
     (if disableHumidity this \<noteq> True
      then [UpdateCharacteristic HumiditySensor CurrentRelativeHumidity (humidity (accessoryState this))]
      else []) @
     [Log Debug ''Triggering updateAccessoryState'']"
  by (simp add: push_def Let_def)

lemma accessoryState_updateAllStates:
  "accessoryState (snd (updateAllStates nts get this)) =
     (case delivered get of None \<Rightarrow> accessoryState this | Some r \<Rightarrow> r)"
proof (cases get)
  case (Rejected e)
  then show ?thesis by (simp add: updateAllStates_Rejected delivered_def)
next
  case (Resolved response)
  show ?thesis
  proof (cases "debug_line nts (data response)")
    case (Inl e)
    then show ?thesis
      using debug_line_error [OF Inl] Resolved
      by (simp add: updateAllStates_Resolved delivered_def)
  next
    case (Inr line)
    then show ?thesis
      using debug_line_reading [OF Inr] Resolved
      by (simp add: updateAllStates_Resolved delivered_def)
  qed
qed

lemma result_updateAllStates:
  "fst (updateAllStates nts get this) = Resolved (delivered get \<noteq> None)"
proof (cases get)
  case (Rejected e)
  then show ?thesis by (simp add: updateAllStates_Rejected delivered_def)
next
  case (Resolved response)
  show ?thesis
  proof (cases "debug_line nts (data response)")
    case (Inl e)
    then show ?thesis
      using debug_line_error [OF Inl] Resolved
      by (simp add: updateAllStates_Resolved delivered_def)
  next
    case (Inr line)
    then show ?thesis
      using debug_line_reading [OF Inr] Resolved
      by (simp add: updateAllStates_Resolved delivered_def)
  qed
qed

lemma disableHumidity_updateAllStates [simp]:
  "disableHumidity (snd (updateAllStates nts get this)) = disableHumidity this"
  by (cases get) (simp_all add: updateAllStates_Rejected updateAllStates_Resolved split: sum.split)

lemma accessoryState_step:
  "accessoryState (step nts this ev) =
     (case reading_of_event ev of None \<Rightarrow> accessoryState this | Some r \<Rightarrow> r)"
  by (cases ev)
     (simp_all add: tick_eq accessoryState_updateAllStates getCurrentTemperature_def
        getCurrentRelativeHumidity_def getServices_def identify_def Let_def split: sum.split)

lemma readings_Cons:
  "readings (ev # evs) =
     (case reading_of_event ev of None \<Rightarrow> readings evs | Some r \<Rightarrow> r # readings evs)"
  by (simp add: readings_def split: option.split)

lemma accessoryState_run:
  "accessoryState (run nts this evs) =
     (if readings evs = [] then accessoryState this else last (readings evs))"
proof (induction evs arbitrary: this)
  case Nil
  show ?case by (simp add: run_def readings_def)
next
  case (Cons ev evs)
  have "run nts this (ev # evs) = run nts (step nts this ev) evs"
    by (simp add: run_def)
  then show ?case
    using Cons [of "step nts this ev"]
    by (simp add: readings_Cons accessoryState_step split: option.split)
qed

lemma accessoryState_constructor:
  "accessoryState (constructor ns sn config) = \<lparr> temperature = JNum 0, humidity = JNum 0 \<rparr>"
  by (simp add: constructor_def Let_def)

lemma refresh_interval_constructor:
  "refresh_interval (constructor ns sn config) = js_or (config_refresh config) (SNum (Finite 30))"
  by (simp add: constructor_def Let_def emit_def)

lemma period_constructor:
  "getRefreshIntervalInMillis sn (constructor ns sn config) =
     js_times (to_number sn (js_or (config_refresh config) (SNum (Finite 30)))) (Finite 1000)"
  by (simp add: getRefreshIntervalInMillis_def refresh_interval_constructor)

lemma timer_constructor:
  "SetInterval (js_times (to_number sn (js_or (config_refresh config) (SNum (Finite 30)))) (Finite 1000))
     \<in> set (trace (constructor ns sn config))"
  by (simp add: constructor_def Let_def emit_def getRefreshIntervalInMillis_def)

section \<open>What the HTTP client hands over\<close>

lemma axios_get_failed:
  "http_failed x \<Longrightarrow> \<exists>e. axios_get parse x = Rejected e"
  by (cases x) (auto simp: axios_get_def http_failed_def validateStatus_def)

lemma axios_get_not_failed:
  "\<not> http_failed x \<Longrightarrow> \<exists>response. axios_get parse x = Resolved response"
  by (cases x) (auto simp: axios_get_def http_failed_def validateStatus_def)

lemma axios_get_unparsed:
  "validateStatus st \<Longrightarrow> parse body = None \<Longrightarrow>
   axios_get parse (HttpResponse st body) = Resolved \<lparr> status = st, data = JStr body \<rparr>"
  by (simp add: axios_get_def)

lemma debug_line_string:
  "debug_line nts (JStr body) =
     Inr (''CallServerResponse: Temperature: undefined Humidity: undefined'')"
  by (simp add: debug_line_def js_concat_def)

lemma updateAllStates_string:
  "updateAllStates nts (Resolved \<lparr> status = st, data = JStr body \<rparr>) this =
     (Resolved True,
      (emit [Log Debug ''CallServerResponse: Temperature: undefined Humidity: undefined''] this)
        \<lparr>accessoryState := \<lparr> temperature = JUndefined, humidity = JUndefined \<rparr>\<rparr>)"
  by (simp add: updateAllStates_Resolved debug_line_string fields_def field_def)

section \<open>The readings of the specification among what is stored\<close>

lemma spec_reading_stored: "spec_reading d = Some r \<Longrightarrow> reading_of d = Some r"
  by (cases d)
     (auto simp: spec_reading_def reading_of_def fields_def field_def
        split: jsvalue.splits option.splits)

lemma spec_delivered_stored: "spec_delivered get = Some r \<Longrightarrow> delivered get = Some r"
  by (cases get) (simp_all add: spec_delivered_def delivered_def spec_reading_stored)

lemma answers_reading_event:
  "answers_reading ev \<Longrightarrow> spec_reading_of_event ev = reading_of_event ev"
proof (cases ev)
  case (InitialUpdate get)
  assume a: "answers_reading ev"
  show ?thesis
  proof (cases get)
    case (Rejected e)
    then show ?thesis using InitialUpdate by (simp add: spec_delivered_def delivered_def)
  next
    case (Resolved response)
    then obtain r where "spec_reading (data response) = Some r"
      using a InitialUpdate by auto
    then show ?thesis
      using InitialUpdate Resolved spec_reading_stored [of "data response" r]
      by (simp add: spec_delivered_def delivered_def)
  qed
next
  case (TimerTick get)
  assume a: "answers_reading ev"
  show ?thesis
  proof (cases get)
    case (Rejected e)
    then show ?thesis using TimerTick by (simp add: spec_delivered_def delivered_def)
  next
    case (Resolved response)
    then obtain r where "spec_reading (data response) = Some r"
      using a TimerTick by auto
    then show ?thesis
      using TimerTick Resolved spec_reading_stored [of "data response" r]
      by (simp add: spec_delivered_def delivered_def)
  qed
qed simp_all

lemma answers_reading_run:
  "list_all answers_reading evs \<Longrightarrow> spec_readings evs = readings evs"
  by (induction evs)
     (simp_all add: spec_readings_def readings_def answers_reading_event split: option.split)

section \<open>Runs\<close>

lemma trace_updateAllStates:
  "\<exists>l line. trace (snd (updateAllStates nts get this)) = trace this @ [Log l line]"
  by (cases get) (auto simp: updateAllStates_Rejected updateAllStates_Resolved split: sum.split)

lemma humidity_calls_step:
  "disableHumidity this \<Longrightarrow>
   filter humidity_call (trace (step nts this ev)) = filter humidity_call (trace this)"
proof (cases ev)
  case (InitialUpdate get)
  then show ?thesis
    using trace_updateAllStates [of nts get this] by (auto simp: humidity_call_def)
next
  case (TimerTick get)
  assume "disableHumidity this"
  then show ?thesis
    using trace_updateAllStates [of nts get this] TimerTick
    by (auto simp: humidity_call_def tick_eq trace_push)
qed (simp_all add: getCurrentTemperature_def getCurrentRelativeHumidity_def getServices_def
       identify_def Let_def humidity_call_def split: sum.split)

lemma disableHumidity_step [simp]: "disableHumidity (step nts this ev) = disableHumidity this"
  by (cases ev)
     (simp_all add: tick_eq getCurrentTemperature_def getCurrentRelativeHumidity_def
        getServices_def identify_def Let_def split: sum.split)

lemma disableHumidity_run [simp]: "disableHumidity (run nts this evs) = disableHumidity this"
  unfolding run_def by (induction evs arbitrary: this) simp_all

lemma humidity_calls_run:
  "disableHumidity this \<Longrightarrow>
   filter humidity_call (trace (run nts this evs)) = filter humidity_call (trace this)"
  unfolding run_def
  by (induction evs arbitrary: this) (simp_all add: humidity_calls_step)

lemma constructor_disabled:
  "config_disableHumidity config = Some True \<Longrightarrow>
   disableHumidity (constructor ns sn config) \<and>
   filter humidity_call (trace (constructor ns sn config)) = []"
  by (simp add: constructor_def Let_def or_boolean_def humidity_call_def)

section \<open>The cache\<close>

text \<open>
  C1, as amended. For every sequence of timer ticks (and of the other events of a run),
  the cache \<open>accessoryState\<close> holds exactly what the last fetch that resolved with
  readable data stored, the temperature and humidity fields of that data as they are, or
  the default of temperature 0 and humidity 0 when there was none. A fetch whose request
  is rejected, by a network error or a status outside 2xx, never changes either field. A
  2xx response whose body is not valid JSON is no failure to the code: it stores
  \<^verbatim>\<open>undefined\<close> in both fields. While every response that resolves carries a numeric
  temperature and humidity, the cache holds the last successfully parsed reading, as the
  claim says.
\<close>

theorem cache_holds_last_stored:
  "accessoryState (run nts (constructor ns sn config) evs) = last_reading evs \<and>
   accessoryState (step nts this ev) =
     (case reading_of_event ev of None \<Rightarrow> accessoryState this | Some r \<Rightarrow> r) \<and>
   accessoryState (tick nts (Rejected e) this) = accessoryState this \<and>
   accessoryState (snd (updateAllStates nts (Rejected e) this)) = accessoryState this \<and>
   (http_failed x \<longrightarrow>
      accessoryState (tick nts (axios_get parse x) this) = accessoryState this) \<and>
   (validateStatus st \<and> parse body = None \<longrightarrow>
      accessoryState (tick nts (axios_get parse (HttpResponse st body)) this) =
        \<lparr> temperature = JUndefined, humidity = JUndefined \<rparr>) \<and>
   (list_all answers_reading evs \<longrightarrow>
      accessoryState (run nts (constructor ns sn config) evs) = spec_last_reading evs)"
proof -
  have stored: "accessoryState (run nts (constructor ns sn config) evs) = last_reading evs"
    by (simp add: accessoryState_run accessoryState_constructor last_reading_def)
  have failed: "accessoryState (tick nts (axios_get parse x) this) = accessoryState this"
    if "http_failed x"
    using axios_get_failed [OF that, of parse]
    by (auto simp: tick_eq updateAllStates_Rejected)
  have unparsed: "accessoryState (tick nts (axios_get parse (HttpResponse st body)) this) =
        \<lparr> temperature = JUndefined, humidity = JUndefined \<rparr>"
    if "validateStatus st" and "parse body = None"
    by (simp add: axios_get_unparsed [of st parse body] that tick_eq updateAllStates_string)
  have spec: "accessoryState (run nts (constructor ns sn config) evs) = spec_last_reading evs"
    if "list_all answers_reading evs"
    by (simp add: stored last_reading_def spec_last_reading_def answers_reading_run [OF that])
  show ?thesis
    using stored failed unparsed spec
    by (simp add: accessoryState_step tick_eq updateAllStates_Rejected)
qed

theorem cache_holds_last_stored_witness:
  "http_failed (HttpResponse 500 ''Internal Server Error'') \<and>
   accessoryState (tick int_string
       (axios_get (\<lambda>b. None) (HttpResponse 500 ''Internal Server Error''))
       (constructor (\<lambda>n. ''30'') (\<lambda>s. NaN) example_config)) =
     \<lparr> temperature = JNum 0, humidity = JNum 0 \<rparr> \<and>
   validateStatus 200 \<and>
   accessoryState (tick int_string (axios_get (\<lambda>b. None) (HttpResponse 200 ''<html>''))
       (constructor (\<lambda>n. ''30'') (\<lambda>s. NaN) example_config)) =
     \<lparr> temperature = JUndefined, humidity = JUndefined \<rparr> \<and>
   list_all answers_reading
     [TimerTick (Resolved \<lparr> status = 200, data = JObj [(''temperature'', JNum 21), (''humidity'', JNum 40)] \<rparr>),
      TimerTick (Rejected (AxiosError ''Network Error'')) :: int event] \<and>
   accessoryState (run int_string (constructor (\<lambda>n. ''30'') (\<lambda>s. NaN) example_config)
     [TimerTick (Resolved \<lparr> status = 200, data = JObj [(''temperature'', JNum 21), (''humidity'', JNum 40)] \<rparr>),
      TimerTick (Rejected (AxiosError ''Network Error''))]) =
     \<lparr> temperature = JNum 21, humidity = JNum 40 \<rparr>"
proof -
  let ?acc = "constructor (\<lambda>n. ''30'') (\<lambda>s. NaN) example_config :: int accessory"
  let ?evs = "[TimerTick (Resolved \<lparr> status = 200, data = JObj [(''temperature'', JNum 21), (''humidity'', JNum 40)] \<rparr>),
      TimerTick (Rejected (AxiosError ''Network Error'')) :: int event]"
  note inst = cache_holds_last_stored [where nts = int_string and ns = "\<lambda>n. ''30''"
        and sn = "\<lambda>s. NaN" and config = example_config and evs = ?evs and this = ?acc
        and x = "HttpResponse 500 ''Internal Server Error''" and parse = "\<lambda>b. None"
        and st = 200 and body = "''<html>''" and ev = HostIdentify
        and e = "AxiosError ''Network Error''"]
  have f: "http_failed (HttpResponse 500 ''Internal Server Error'')"
    by (simp add: http_failed_def)
  have v: "validateStatus 200"
    by (simp add: validateStatus_def)
  have a: "list_all answers_reading ?evs"
    by (simp add: spec_reading_def field_def)
  have l: "spec_last_reading ?evs = \<lparr> temperature = JNum 21, humidity = JNum 40 \<rparr>"
    by (simp add: spec_last_reading_def spec_readings_def spec_delivered_def spec_reading_def
        field_def)
  have "accessoryState (tick int_string
          (axios_get (\<lambda>b. None) (HttpResponse 500 ''Internal Server Error'')) ?acc) =
        accessoryState ?acc"
    using inst f by blast
  moreover have "accessoryState (tick int_string
          (axios_get (\<lambda>b. None) (HttpResponse 200 ''<html>'')) ?acc) =
        \<lparr> temperature = JUndefined, humidity = JUndefined \<rparr>"
    using inst v by blast
  moreover have "accessoryState (run int_string ?acc ?evs) = spec_last_reading ?evs"
    using inst a by blast
  ultimately show ?thesis
    using f v a l by (simp add: accessoryState_constructor)
qed

text \<open>
  The claim as stated fails on a good reading followed by a 200 response whose body is not
  JSON. To the specification the second fetch failed, and the last successfully parsed
  reading is 21 and 40; the cache holds \<^verbatim>\<open>undefined\<close> in both fields.
\<close>

theorem malformed_body_clears_cache:
  "accessoryState (run int_string (constructor (\<lambda>n. ''30'') (\<lambda>s. NaN) example_config)
     [TimerTick (Resolved \<lparr> status = 200, data = JObj [(''temperature'', JNum 21), (''humidity'', JNum 40)] \<rparr>),
      TimerTick (Resolved \<lparr> status = 200, data = JStr ''<html>'' \<rparr>)]) =
     \<lparr> temperature = JUndefined, humidity = JUndefined \<rparr> \<and>
   spec_last_reading
     [TimerTick (Resolved \<lparr> status = 200, data = JObj [(''temperature'', JNum 21), (''humidity'', JNum 40)] \<rparr>),
      TimerTick (Resolved \<lparr> status = 200, data = JStr ''<html>'' \<rparr>) :: int event] =
     \<lparr> temperature = JNum 21, humidity = JNum 40 \<rparr>"
  by (simp add: accessoryState_run readings_def delivered_def reading_of_def fields_def field_def
      spec_last_reading_def spec_readings_def spec_delivered_def spec_reading_def)



section \<open>The fetch\<close>

text \<open>
  C3, as amended. For every invocation, \<^verbatim>\<open>callServer\<close> rejects exactly when the HTTP
  request fails, where failure covers two sub-kinds, a network error and a status outside
  2xx; it rejects with the error of the request and changes nothing of the accessory.
  Malformed JSON is not a failure: a 2xx response whose body is not valid JSON resolves
  with the body as a string, \<^verbatim>\<open>updateAllStates\<close> reports success, and the cache then
  holds \<^verbatim>\<open>undefined\<close> in both fields.
\<close>

theorem callServer_rejects_failed_requests:
  "(\<exists>e. fst (callServer (axios_get parse x) this) = Rejected e) = http_failed x \<and>
   fst (callServer (axios_get parse (NetworkError m)) this) = Rejected (AxiosError m) \<and>
   (st < 200 \<or> 300 \<le> st \<longrightarrow>
      (\<exists>e. fst (callServer (axios_get parse (HttpResponse st body)) this) = Rejected e)) \<and>
   (validateStatus st \<and> parse body = None \<longrightarrow>
      fst (callServer (axios_get parse (HttpResponse st body)) this) = Resolved (JStr body) \<and>
      fst (updateAllStates nts (axios_get parse (HttpResponse st body)) this) = Resolved True \<and>
      accessoryState (snd (updateAllStates nts (axios_get parse (HttpResponse st body)) this)) =
        \<lparr> temperature = JUndefined, humidity = JUndefined \<rparr>) \<and>
   fst (callServer (Rejected e) this) = Rejected e \<and>
   fst (callServer (Resolved response) this) = Resolved (data response) \<and>
   snd (callServer get this) = this \<and>
   (\<exists>e. fst (callServer get this) = Rejected e) = (\<exists>e. get = Rejected e)"
proof -
  have iff: "(\<exists>e. fst (callServer (axios_get parse x) this) = Rejected e) = http_failed x"
    using axios_get_failed [of x parse] axios_get_not_failed [of x parse]
    by (cases "http_failed x") (auto simp: callServer_eq)
  have status: "\<exists>e. fst (callServer (axios_get parse (HttpResponse st body)) this) = Rejected e"
    if "st < 200 \<or> 300 \<le> st"
    using that axios_get_failed [of "HttpResponse st body" parse]
    by (auto simp: callServer_eq http_failed_def)
  have unparsed:
    "fst (callServer (axios_get parse (HttpResponse st body)) this) = Resolved (JStr body) \<and>
     fst (updateAllStates nts (axios_get parse (HttpResponse st body)) this) = Resolved True \<and>
     accessoryState (snd (updateAllStates nts (axios_get parse (HttpResponse st body)) this)) =
       \<lparr> temperature = JUndefined, humidity = JUndefined \<rparr>"
    if "validateStatus st" and "parse body = None"
    by (simp add: axios_get_unparsed [of st parse body] that callServer_eq updateAllStates_string)
  have general: "(\<exists>e. fst (callServer get this) = Rejected e) = (\<exists>e. get = Rejected e)"
    by (cases get) (simp_all add: callServer_eq)
  have same: "snd (callServer get this) = this"
    by (cases get) (simp_all add: callServer_eq)
  show ?thesis
    using iff status unparsed general same
    by (simp add: callServer_eq axios_get_def)
qed

theorem callServer_rejects_failed_requests_witness:
  "fst (callServer (axios_get (\<lambda>b. None) (NetworkError ''Network Error''))
         (constructor (\<lambda>n. ''30'') (\<lambda>s. NaN) example_config :: int accessory)) =
     Rejected (AxiosError ''Network Error'') \<and>
   (\<exists>e. fst (callServer (axios_get (\<lambda>b. None) (HttpResponse 500 ''Internal Server Error''))
         (constructor (\<lambda>n. ''30'') (\<lambda>s. NaN) example_config :: int accessory)) = Rejected e) \<and>
   validateStatus 200 \<and>
   fst (callServer (axios_get (\<lambda>b. None) (HttpResponse 200 ''<html>''))
         (constructor (\<lambda>n. ''30'') (\<lambda>s. NaN) example_config :: int accessory)) = Resolved (JStr ''<html>'') \<and>
   fst (updateAllStates int_string (axios_get (\<lambda>b. None) (HttpResponse 200 ''<html>''))
         (constructor (\<lambda>n. ''30'') (\<lambda>s. NaN) example_config)) = Resolved True \<and>
   accessoryState (snd (updateAllStates int_string
         (axios_get (\<lambda>b. None) (HttpResponse 200 ''<html>''))
         (constructor (\<lambda>n. ''30'') (\<lambda>s. NaN) example_config))) =
     \<lparr> temperature = JUndefined, humidity = JUndefined \<rparr>"
proof -
  have v: "validateStatus 200"
    by (simp add: validateStatus_def)
  show ?thesis
    using v
      callServer_rejects_failed_requests [where parse = "\<lambda>b. None"
        and this = "constructor (\<lambda>n. ''30'') (\<lambda>s. NaN) example_config :: int accessory"
        and m = "''Network Error''" and st = 500 and body = "''Internal Server Error''"
        and nts = int_string]
      callServer_rejects_failed_requests [where parse = "\<lambda>b. None"
        and this = "constructor (\<lambda>n. ''30'') (\<lambda>s. NaN) example_config :: int accessory"
        and st = 200 and body = "''<html>''" and nts = int_string]
    by simp
qed

text \<open>
  The claim as stated has a 200 response whose body is not JSON fail. The client hands
  such a body over as a string in \<^verbatim>\<open>data\<close>; the fetch then succeeds, and
  \<^verbatim>\<open>updateAllStates\<close> stores \<^verbatim>\<open>undefined\<close> in both fields of the cache.
\<close>

theorem unparsed_body_is_a_reading:
  "fst (callServer (Resolved \<lparr> status = 200, data = JStr ''<html>'' \<rparr>)
         (constructor (\<lambda>n. ''30'') (\<lambda>s. NaN) example_config :: int accessory)) = Resolved (JStr ''<html>'') \<and>
   fst (updateAllStates int_string (Resolved \<lparr> status = 200, data = JStr ''<html>'' \<rparr>)
         (constructor (\<lambda>n. ''30'') (\<lambda>s. NaN) example_config)) = Resolved True \<and>
   accessoryState (snd (updateAllStates int_string (Resolved \<lparr> status = 200, data = JStr ''<html>'' \<rparr>)
         (constructor (\<lambda>n. ''30'') (\<lambda>s. NaN) example_config))) = \<lparr> temperature = JUndefined, humidity = JUndefined \<rparr>"
  by (simp add: callServer_eq updateAllStates_Resolved debug_line_def js_concat_def fields_def
      field_def)

text \<open>
  C4. For every response body with a numeric temperature \<open>t\<close> and a numeric humidity
  \<open>h\<close>, a successful fetch followed by the temperature getter and the humidity getter
  returns exactly \<open>t\<close> and \<open>h\<close>: nothing validates or transforms the values.
\<close>

theorem fetch_then_read:
  "fst (updateAllStates nts
          (Resolved \<lparr> status = c, data = JObj [(''temperature'', JNum t), (''humidity'', JNum h)] \<rparr>)
          this) = Resolved True \<and>
   fst (getCurrentTemperature nts (snd (updateAllStates nts
          (Resolved \<lparr> status = c, data = JObj [(''temperature'', JNum t), (''humidity'', JNum h)] \<rparr>)
          this))) = Inr (JNum t) \<and>
   fst (getCurrentRelativeHumidity nts (snd (getCurrentTemperature nts (snd (updateAllStates nts
          (Resolved \<lparr> status = c, data = JObj [(''temperature'', JNum t), (''humidity'', JNum h)] \<rparr>)
          this))))) = Inr (JNum h)"
  by (simp add: updateAllStates_Resolved debug_line_def js_concat_def fields_def field_def
      getCurrentTemperature_def getCurrentRelativeHumidity_def Let_def)

text \<open>The response of the readme: 25.8 and 38 are read back.\<close>

theorem fetch_then_read_readme:
  "fst (updateAllStates (\<lambda>x. ''?'')
          (Resolved \<lparr> status = 200,
                      data = JObj [(''temperature'', JNum (25.8::real)), (''humidity'', JNum 38)] \<rparr>)
          (constructor (\<lambda>n. ''30'') (\<lambda>s. NaN) example_config)) = Resolved True \<and>
   fst (getCurrentTemperature (\<lambda>x. ''?'') (snd (updateAllStates (\<lambda>x. ''?'')
          (Resolved \<lparr> status = 200,
                      data = JObj [(''temperature'', JNum (25.8::real)), (''humidity'', JNum 38)] \<rparr>)
          (constructor (\<lambda>n. ''30'') (\<lambda>s. NaN) example_config)))) = Inr (JNum 25.8) \<and>
   fst (getCurrentRelativeHumidity (\<lambda>x. ''?'') (snd (getCurrentTemperature (\<lambda>x. ''?'')
          (snd (updateAllStates (\<lambda>x. ''?'')
          (Resolved \<lparr> status = 200,
                      data = JObj [(''temperature'', JNum (25.8::real)), (''humidity'', JNum 38)] \<rparr>)
          (constructor (\<lambda>n. ''30'') (\<lambda>s. NaN) example_config)))))) = Inr (JNum 38)"
  by (rule fetch_then_read)

text \<open>
  C5, as amended. In every state reached from the constructor before a fetch has resolved
  with readable data (every request so far was rejected, by a network error or a status
  outside 2xx, or resolved with data whose fields could not be read), the temperature
  getter and the humidity getter both return 0. A 2xx response whose body is not valid
  JSON is no failed fetch to the code: after it both getters return \<^verbatim>\<open>undefined\<close>.
\<close>

theorem zero_before_first_stored:
  "(readings evs = [] \<longrightarrow>
      fst (getCurrentTemperature nts (run nts (constructor ns sn config) evs)) = Inr (JNum 0) \<and>
      fst (getCurrentRelativeHumidity nts (run nts (constructor ns sn config) evs)) = Inr (JNum 0)) \<and>
   (http_failed x \<longrightarrow>
      readings [InitialUpdate (axios_get parse x)] = [] \<and>
      readings [TimerTick (axios_get parse x)] = []) \<and>
   (validateStatus st \<and> parse body = None \<longrightarrow>
      fst (getCurrentTemperature nts (step nts (run nts (constructor ns sn config) evs)
             (InitialUpdate (axios_get parse (HttpResponse st body))))) = Inr JUndefined \<and>
      fst (getCurrentRelativeHumidity nts (step nts (run nts (constructor ns sn config) evs)
             (InitialUpdate (axios_get parse (HttpResponse st body))))) = Inr JUndefined)"
proof -
  have zero:
    "fst (getCurrentTemperature nts (run nts (constructor ns sn config) evs)) = Inr (JNum 0) \<and>
     fst (getCurrentRelativeHumidity nts (run nts (constructor ns sn config) evs)) = Inr (JNum 0)"
    if "readings evs = []"
    using that
    by (simp add: getCurrentTemperature_def getCurrentRelativeHumidity_def Let_def js_concat_def
        accessoryState_run accessoryState_constructor)
  have failed: "readings [InitialUpdate (axios_get parse x)] = [] \<and>
      readings [TimerTick (axios_get parse x)] = []"
    if "http_failed x"
    using axios_get_failed [OF that, of parse]
    by (auto simp: readings_def delivered_def)
  have unparsed:
    "fst (getCurrentTemperature nts (step nts (run nts (constructor ns sn config) evs)
           (InitialUpdate (axios_get parse (HttpResponse st body))))) = Inr JUndefined \<and>
     fst (getCurrentRelativeHumidity nts (step nts (run nts (constructor ns sn config) evs)
           (InitialUpdate (axios_get parse (HttpResponse st body))))) = Inr JUndefined"
    if "validateStatus st" and "parse body = None"
    by (simp add: axios_get_unparsed [of st parse body] that updateAllStates_string getCurrentTemperature_def
        getCurrentRelativeHumidity_def Let_def js_concat_def)
  show ?thesis
    using zero failed unparsed by blast
qed

theorem zero_before_first_stored_witness:
  "readings [HostGetTemperature, InitialUpdate (Rejected (AxiosError ''Network Error'')),
             TimerTick (Resolved \<lparr> status = 200, data = JNull \<rparr>), HostGetHumidity :: int event] = [] \<and>
   fst (getCurrentTemperature int_string (run int_string (constructor (\<lambda>n. ''30'') (\<lambda>s. NaN) example_config)
     [HostGetTemperature, InitialUpdate (Rejected (AxiosError ''Network Error'')),
      TimerTick (Resolved \<lparr> status = 200, data = JNull \<rparr>), HostGetHumidity])) = Inr (JNum 0) \<and>
   fst (getCurrentRelativeHumidity int_string (run int_string (constructor (\<lambda>n. ''30'') (\<lambda>s. NaN) example_config)
     [HostGetTemperature, InitialUpdate (Rejected (AxiosError ''Network Error'')),
      TimerTick (Resolved \<lparr> status = 200, data = JNull \<rparr>), HostGetHumidity])) = Inr (JNum 0) \<and>
   http_failed (HttpResponse 404 ''Not Found'') \<and>
   readings [TimerTick (axios_get (\<lambda>b. None) (HttpResponse 404 ''Not Found'')) :: int event] = [] \<and>
   validateStatus 200 \<and>
   fst (getCurrentTemperature int_string (step int_string
          (run int_string (constructor (\<lambda>n. ''30'') (\<lambda>s. NaN) example_config) [])
          (InitialUpdate (axios_get (\<lambda>b. None) (HttpResponse 200 ''<html>''))))) = Inr JUndefined"
proof -
  have h: "readings [HostGetTemperature, InitialUpdate (Rejected (AxiosError ''Network Error'')),
             TimerTick (Resolved \<lparr> status = 200, data = JNull \<rparr>), HostGetHumidity :: int event] = []"
    by (simp add: readings_def delivered_def reading_of_def)
  have f: "http_failed (HttpResponse 404 ''Not Found'')"
    by (simp add: http_failed_def)
  have v: "validateStatus 200"
    by (simp add: validateStatus_def)
  show ?thesis
    using h f v
      zero_before_first_stored [where evs =
        "[HostGetTemperature, InitialUpdate (Rejected (AxiosError ''Network Error'')),
          TimerTick (Resolved \<lparr> status = 200, data = JNull \<rparr>), HostGetHumidity]"
        and nts = int_string and ns = "\<lambda>n. ''30''" and sn = "\<lambda>s. NaN"
        and config = example_config
        and x = "HttpResponse 404 ''Not Found''" and parse = "\<lambda>b. None"
        and st = 200 and body = "''<html>''"]
      zero_before_first_stored [where evs = "[]"
        and nts = int_string and ns = "\<lambda>n. ''30''" and sn = "\<lambda>s. NaN"
        and config = example_config
        and x = "HttpResponse 404 ''Not Found''" and parse = "\<lambda>b. None"
        and st = 200 and body = "''<html>''"]
    by simp
qed

text \<open>
  The claim as stated fails after a 200 response whose body is not JSON: to the
  specification no fetch has succeeded, and both getters return \<^verbatim>\<open>undefined\<close>.
\<close>

theorem undefined_after_malformed_body:
  "spec_readings [InitialUpdate (Resolved \<lparr> status = 200, data = JStr ''<html>'' \<rparr>) :: int event] = [] \<and>
   fst (getCurrentTemperature int_string (run int_string (constructor (\<lambda>n. ''30'') (\<lambda>s. NaN) example_config)
     [InitialUpdate (Resolved \<lparr> status = 200, data = JStr ''<html>'' \<rparr>)])) = Inr JUndefined \<and>
   fst (getCurrentRelativeHumidity int_string (run int_string (constructor (\<lambda>n. ''30'') (\<lambda>s. NaN) example_config)
     [InitialUpdate (Resolved \<lparr> status = 200, data = JStr ''<html>'' \<rparr>)])) = Inr JUndefined"
  by (simp add: spec_readings_def spec_delivered_def spec_reading_def field_def run_def
      updateAllStates_string getCurrentTemperature_def getCurrentRelativeHumidity_def Let_def
      js_concat_def)

text \<open>
  C8. \<^verbatim>\<open>updateAllStates\<close> always resolves and never rejects. It resolves with true
  exactly when the fetch delivered a reading, and the cache then holds that reading; it
  resolves with false when an error was caught, and the cache is then unchanged and the
  error logged: the error of the request when the request was rejected.
\<close>

theorem updateAllStates_always_resolves:
  "fst (updateAllStates nts get this) = Resolved (delivered get \<noteq> None) \<and>
   accessoryState (snd (updateAllStates nts get this)) =
     (case delivered get of None \<Rightarrow> accessoryState this | Some r \<Rightarrow> r) \<and>
   (delivered get = None \<longrightarrow>
      (\<exists>e. trace (snd (updateAllStates nts get this)) =
            trace this @ [Log Info (''updateAllStates Error : '' @ message e)])) \<and>
   (\<forall>e. get = Rejected e \<longrightarrow>
      updateAllStates nts get this =
        (Resolved False, emit [Log Info (''updateAllStates Error : '' @ message e)] this))"
proof -
  have "\<exists>e. trace (snd (updateAllStates nts get this)) =
            trace this @ [Log Info (''updateAllStates Error : '' @ message e)]"
    if "delivered get = None"
  proof (cases get)
    case (Rejected e)
    then show ?thesis by (auto simp: updateAllStates_Rejected)
  next
    case (Resolved response)
    show ?thesis
    proof (cases "debug_line nts (data response)")
      case (Inl e)
      then show ?thesis using Resolved by (auto simp: updateAllStates_Resolved)
    next
      case (Inr line)
      then show ?thesis
        using debug_line_reading [OF Inr] that Resolved by (simp add: delivered_def)
    qed
  qed
  then show ?thesis
    by (simp add: result_updateAllStates accessoryState_updateAllStates updateAllStates_Rejected)
qed

theorem updateAllStates_always_resolves_witness:
  "delivered (Resolved \<lparr> status = 200, data = (JNull :: int jsvalue) \<rparr>) = None \<and>
   fst (updateAllStates int_string (Resolved \<lparr> status = 200, data = JNull \<rparr>)
          (constructor (\<lambda>n. ''30'') (\<lambda>s. NaN) example_config)) = Resolved False \<and>
   accessoryState (snd (updateAllStates int_string (Resolved \<lparr> status = 200, data = JNull \<rparr>)
          (constructor (\<lambda>n. ''30'') (\<lambda>s. NaN) example_config))) = \<lparr> temperature = JNum 0, humidity = JNum 0 \<rparr> \<and>
   updateAllStates int_string (Rejected (AxiosError ''Network Error'')) (constructor (\<lambda>n. ''30'') (\<lambda>s. NaN) example_config) =
     (Resolved False,
      emit [Log Info ''updateAllStates Error : Network Error''] (constructor (\<lambda>n. ''30'') (\<lambda>s. NaN) example_config))"
proof -
  have h: "delivered (Resolved \<lparr> status = 200, data = (JNull :: int jsvalue) \<rparr>) = None"
    by (simp add: delivered_def reading_of_def)
  show ?thesis
    using h
      updateAllStates_always_resolves [of int_string
        "Resolved \<lparr> status = 200, data = JNull \<rparr>" "constructor (\<lambda>n. ''30'') (\<lambda>s. NaN) example_config"]
      updateAllStates_always_resolves [of int_string
        "Rejected (AxiosError ''Network Error'')" "constructor (\<lambda>n. ''30'') (\<lambda>s. NaN) example_config"]
    by (simp add: accessoryState_constructor)
qed

section \<open>The polling period\<close>

text \<open>
  C6, as amended. For every configuration the polling period in milliseconds is the
  configured refresh value times 1000, the product of doubles that \<^verbatim>\<open>*\<close> computes,
  with 30 seconds used when the refresh key is omitted or its value is falsy (0, NaN,
  \<^verbatim>\<open>null\<close>, \<^verbatim>\<open>false\<close>, the empty string); the constructor arms the timer with
  it. The product is exact for every whole number of seconds whose product with 1000 is
  below \<open>2 ^ 53\<close>. Without the refresh key the period is 30000 ms, with refresh 5 it is
  5000 ms.
\<close>

theorem polling_period:
  "getRefreshIntervalInMillis sn (constructor ns sn config :: ('n::zero) accessory) =
     js_times (to_number sn (if truthy (config_refresh config) then config_refresh config
                             else SNum (Finite 30)))
       (Finite 1000) \<and>
   SetInterval (getRefreshIntervalInMillis sn (constructor ns sn config :: 'n accessory))
     \<in> set (trace (constructor ns sn config :: 'n accessory)) \<and>
   (\<not> truthy (config_refresh config) \<longrightarrow>
      getRefreshIntervalInMillis sn (constructor ns sn config :: 'n accessory) = Finite 30000) \<and>
   (\<forall>n. config_refresh config = SNum (Finite (of_int n)) \<and> n \<noteq> 0 \<and> \<bar>n\<bar> * 1000 < 2 ^ 53 \<longrightarrow>
      getRefreshIntervalInMillis sn (constructor ns sn config :: 'n accessory) =
        Finite (of_int (n * 1000))) \<and>
   (config_refresh config = SUndefined \<longrightarrow>
      getRefreshIntervalInMillis sn (constructor ns sn config :: 'n accessory) = Finite 30000) \<and>
   (config_refresh config = SNum (Finite 5) \<longrightarrow>
      getRefreshIntervalInMillis sn (constructor ns sn config :: 'n accessory) = Finite 5000)"
proof -
  have whole: "getRefreshIntervalInMillis sn (constructor ns sn config :: 'n accessory) =
        Finite (of_int (n * 1000))"
    if "config_refresh config = SNum (Finite (of_int n))" and "n \<noteq> 0" and "\<bar>n\<bar> * 1000 < 2 ^ 53"
    for n
    using that
    by (simp add: period_constructor js_or_def times_1000 round_double_whole)
  show ?thesis
    using whole timer_constructor [of sn config ns]
    by (simp add: period_constructor js_or_def times_1000 round_double_30000 round_double_5000)
qed

theorem polling_period_witness:
  "\<not> truthy (config_refresh example_config) \<and>
   getRefreshIntervalInMillis (\<lambda>s. NaN)
     (constructor (\<lambda>n. ''30'') (\<lambda>s. NaN) example_config :: int accessory) = Finite 30000 \<and>
   getRefreshIntervalInMillis (\<lambda>s. NaN)
     (constructor (\<lambda>n. ''5'') (\<lambda>s. NaN)
        (example_config\<lparr>config_refresh := SNum (Finite 5)\<rparr>) :: int accessory) = Finite 5000 \<and>
   \<bar>3600 :: int\<bar> * 1000 < 2 ^ 53 \<and>
   getRefreshIntervalInMillis (\<lambda>s. NaN)
     (constructor (\<lambda>n. ''3600'') (\<lambda>s. NaN)
        (example_config\<lparr>config_refresh := SNum (Finite 3600)\<rparr>) :: int accessory) =
     Finite 3600000"
proof -
  note omitted = polling_period [where sn = "\<lambda>s. NaN" and ns = "\<lambda>n. ''30''"
      and config = example_config and ?'n = int]
  note five = polling_period [where sn = "\<lambda>s. NaN" and ns = "\<lambda>n. ''5''"
      and config = "example_config\<lparr>config_refresh := SNum (Finite 5)\<rparr>" and ?'n = int]
  note hour = polling_period [where sn = "\<lambda>s. NaN" and ns = "\<lambda>n. ''3600''"
      and config = "example_config\<lparr>config_refresh := SNum (Finite (of_int 3600))\<rparr>"
      and ?'n = int]
  have f: "\<not> truthy (config_refresh example_config)"
    by (simp add: example_config_def)
  have w: "\<bar>3600 :: int\<bar> * 1000 < 2 ^ 53"
    by simp
  have "getRefreshIntervalInMillis (\<lambda>s. NaN)
      (constructor (\<lambda>n. ''30'') (\<lambda>s. NaN) example_config :: int accessory) = Finite 30000"
    using omitted f by blast
  moreover have "getRefreshIntervalInMillis (\<lambda>s. NaN)
      (constructor (\<lambda>n. ''5'') (\<lambda>s. NaN)
        (example_config\<lparr>config_refresh := SNum (Finite 5)\<rparr>) :: int accessory) = Finite 5000"
  proof -
    have "config_refresh (example_config\<lparr>config_refresh := SNum (Finite 5)\<rparr>) = SNum (Finite 5)"
      by simp
    then show ?thesis using five by blast
  qed
  moreover have "getRefreshIntervalInMillis (\<lambda>s. NaN)
      (constructor (\<lambda>n. ''3600'') (\<lambda>s. NaN)
        (example_config\<lparr>config_refresh := SNum (Finite (of_int 3600))\<rparr>) :: int accessory) =
      Finite (of_int (3600 * 1000))"
  proof -
    have "config_refresh (example_config\<lparr>config_refresh := SNum (Finite (of_int 3600))\<rparr>) =
        SNum (Finite (of_int 3600)) \<and> (3600::int) \<noteq> 0 \<and> \<bar>3600 :: int\<bar> * 1000 < 2 ^ 53"
      by simp
    then show ?thesis using hour by blast
  qed
  ultimately show ?thesis
    using f w by simp
qed

text \<open>The claim as stated gives refresh 0 a period of 0 ms; the period is 30000 ms.\<close>

theorem zero_refresh_is_not_zero_period:
  "getRefreshIntervalInMillis (\<lambda>s. NaN)
     (constructor (\<lambda>n. ''30'') (\<lambda>s. NaN) (example_config\<lparr>config_refresh := SNum (Finite 0)\<rparr>) :: int accessory) =
     Finite 30000 \<and>
   js_times (Finite 0) (Finite 1000) = Finite 0 \<and>
   Finite 30000 \<noteq> Finite 0"
  by (simp add: period_constructor js_or_def times_1000 round_double_30000 round_double_0)

text \<open>
  C9, as amended. For every configuration whose refresh key is present but falsy (0, NaN,
  \<^verbatim>\<open>null\<close>, \<^verbatim>\<open>false\<close> or the empty string), the refresh interval is the default of
  30 seconds, not 0. A polling period below 1000 ms is produced by every negative refresh
  (-1 gives -1000 ms) and by fractions such as 0.5 (500 ms); it is produced by no number
  of 1 or more, and not by \<^verbatim>\<open>true\<close> (1000 ms).
\<close>

theorem falsy_refresh_defaults:
  "(\<not> truthy (config_refresh config) \<longrightarrow>
      refresh_interval (constructor ns sn config :: ('n::zero) accessory) = SNum (Finite 30) \<and>
      getRefreshIntervalInMillis sn (constructor ns sn config :: 'n accessory) = Finite 30000) \<and>
   (\<forall>x. config_refresh config = SNum (Finite x) \<and> x < 0 \<longrightarrow>
      js_less (getRefreshIntervalInMillis sn (constructor ns sn config :: 'n accessory))
        (Finite 1000)) \<and>
   (\<forall>x. config_refresh config = SNum (Finite x) \<and> 1 \<le> x \<longrightarrow>
      \<not> js_less (getRefreshIntervalInMillis sn (constructor ns sn config :: 'n accessory))
          (Finite 1000)) \<and>
   (config_refresh config = SNum (Finite (- 1)) \<longrightarrow>
      getRefreshIntervalInMillis sn (constructor ns sn config :: 'n accessory) = Finite (- 1000)) \<and>
   (config_refresh config = SNum (Finite (1 / 2)) \<longrightarrow>
      getRefreshIntervalInMillis sn (constructor ns sn config :: 'n accessory) = Finite 500) \<and>
   (config_refresh config = SBool True \<longrightarrow>
      getRefreshIntervalInMillis sn (constructor ns sn config :: 'n accessory) = Finite 1000)"
proof -
  have below: "js_less (getRefreshIntervalInMillis sn (constructor ns sn config :: 'n accessory))
        (Finite 1000)"
    if "config_refresh config = SNum (Finite x)" and "x < 0" for x
    using that round_double_negative [of "x * 1000"]
    by (simp add: period_constructor js_or_def times_1000 mult_less_0_iff)
  have above: "\<not> js_less (getRefreshIntervalInMillis sn (constructor ns sn config :: 'n accessory))
        (Finite 1000)"
    if "config_refresh config = SNum (Finite x)" and "1 \<le> x" for x
    using that round_double_at_least [of "x * 1000"]
    by (simp add: period_constructor js_or_def times_1000)
  show ?thesis
    using below above
    by (simp add: period_constructor refresh_interval_constructor js_or_def times_1000
        round_double_30000 round_double_minus_1000 round_double_500 round_double_1000)
qed

theorem falsy_refresh_defaults_witness:
  "\<not> truthy (SNum (Finite 0)) \<and> \<not> truthy SNull \<and> \<not> truthy (SBool False) \<and>
   \<not> truthy (SStr []) \<and> \<not> truthy (SNum NaN) \<and>
   refresh_interval (constructor (\<lambda>n. ''30'') (\<lambda>s. NaN) (example_config\<lparr>config_refresh := SNum (Finite 0)\<rparr>) :: int accessory) =
     SNum (Finite 30) \<and>
   getRefreshIntervalInMillis (\<lambda>s. NaN)
     (constructor (\<lambda>n. ''30'') (\<lambda>s. NaN) (example_config\<lparr>config_refresh := SNull\<rparr>) :: int accessory) = Finite 30000 \<and>
   js_less (getRefreshIntervalInMillis (\<lambda>s. NaN)
     (constructor (\<lambda>n. ''-2.5'') (\<lambda>s. NaN)
        (example_config\<lparr>config_refresh := SNum (Finite (- 5 / 2))\<rparr>) :: int accessory))
     (Finite 1000) \<and>
   \<not> js_less (getRefreshIntervalInMillis (\<lambda>s. NaN)
     (constructor (\<lambda>n. ''1.5'') (\<lambda>s. NaN)
        (example_config\<lparr>config_refresh := SNum (Finite (3 / 2))\<rparr>) :: int accessory))
     (Finite 1000)"
proof -
  note zero = falsy_refresh_defaults [where config = "example_config\<lparr>config_refresh := SNum (Finite 0)\<rparr>"
      and ns = "\<lambda>n. ''30''" and sn = "\<lambda>s. NaN" and ?'n = int]
  note null = falsy_refresh_defaults [where config = "example_config\<lparr>config_refresh := SNull\<rparr>"
      and ns = "\<lambda>n. ''30''" and sn = "\<lambda>s. NaN" and ?'n = int]
  note minus = falsy_refresh_defaults [where
      config = "example_config\<lparr>config_refresh := SNum (Finite (- 5 / 2))\<rparr>"
      and ns = "\<lambda>n. ''-2.5''" and sn = "\<lambda>s. NaN" and ?'n = int]
  note plus = falsy_refresh_defaults [where
      config = "example_config\<lparr>config_refresh := SNum (Finite (3 / 2))\<rparr>"
      and ns = "\<lambda>n. ''1.5''" and sn = "\<lambda>s. NaN" and ?'n = int]
  have f: "\<not> truthy (SNum (Finite 0)) \<and> \<not> truthy SNull \<and> \<not> truthy (SBool False) \<and>
     \<not> truthy (SStr []) \<and> \<not> truthy (SNum NaN)"
    by simp
  have "refresh_interval (constructor (\<lambda>n. ''30'') (\<lambda>s. NaN) (example_config\<lparr>config_refresh := SNum (Finite 0)\<rparr>) :: int accessory) =
      SNum (Finite 30)"
  proof -
    have "\<not> truthy (config_refresh (example_config\<lparr>config_refresh := SNum (Finite 0)\<rparr>))"
      by simp
    then show ?thesis using zero by blast
  qed
  moreover have "getRefreshIntervalInMillis (\<lambda>s. NaN)
      (constructor (\<lambda>n. ''30'') (\<lambda>s. NaN) (example_config\<lparr>config_refresh := SNull\<rparr>) :: int accessory) = Finite 30000"
  proof -
    have "\<not> truthy (config_refresh (example_config\<lparr>config_refresh := SNull\<rparr>))"
      by simp
    then show ?thesis using null by blast
  qed
  moreover have "js_less (getRefreshIntervalInMillis (\<lambda>s. NaN)
      (constructor (\<lambda>n. ''-2.5'') (\<lambda>s. NaN)
        (example_config\<lparr>config_refresh := SNum (Finite (- 5 / 2))\<rparr>) :: int accessory))
      (Finite 1000)"
  proof -
    have "config_refresh (example_config\<lparr>config_refresh := SNum (Finite (- 5 / 2))\<rparr>) =
        SNum (Finite (- 5 / 2)) \<and> (- 5 / 2 :: rat) < 0"
      by simp
    then show ?thesis using minus by blast
  qed
  moreover have "\<not> js_less (getRefreshIntervalInMillis (\<lambda>s. NaN)
      (constructor (\<lambda>n. ''1.5'') (\<lambda>s. NaN)
        (example_config\<lparr>config_refresh := SNum (Finite (3 / 2))\<rparr>) :: int accessory))
      (Finite 1000)"
  proof -
    have "config_refresh (example_config\<lparr>config_refresh := SNum (Finite (3 / 2))\<rparr>) =
        SNum (Finite (3 / 2)) \<and> (1::rat) \<le> 3 / 2"
      by simp
    then show ?thesis using plus by blast
  qed
  ultimately show ?thesis
    using f by simp
qed

text \<open>
  The claim as stated has no period below 1000 ms: refresh -1 gives -1000 ms and refresh
  0.5 gives 500 ms.
\<close>

theorem negative_refresh_period:
  "getRefreshIntervalInMillis (\<lambda>s. NaN)
     (constructor (\<lambda>n. ''-1'') (\<lambda>s. NaN)
        (example_config\<lparr>config_refresh := SNum (Finite (- 1))\<rparr>) :: int accessory) =
     Finite (- 1000) \<and>
   js_less (Finite (- 1000)) (Finite 1000) \<and>
   getRefreshIntervalInMillis (\<lambda>s. NaN)
     (constructor (\<lambda>n. ''0.5'') (\<lambda>s. NaN)
        (example_config\<lparr>config_refresh := SNum (Finite (1 / 2))\<rparr>) :: int accessory) =
     Finite 500 \<and>
   js_less (Finite 500) (Finite 1000)"
  by (simp add: period_constructor js_or_def times_1000 round_double_minus_1000 round_double_500)

section \<open>Humidity disabled\<close>

text \<open>
  C7. For every configuration with disableHumidity set to true, after every run: the
  humidity service is not in the list \<^verbatim>\<open>getServices\<close> returns, no read handler
  was registered on it, and nothing was pushed to it, whatever the endpoint returned; a
  successful fetch still stores the humidity of the response in the cache.
\<close>

theorem humidity_disabled:
  assumes "config_disableHumidity config = Some True"
  shows "HumiditySensor \<notin> set (fst (getServices (run nts (constructor ns sn config) evs))) \<and>
         OnGet HumiditySensor c \<notin> set (trace (run nts (constructor ns sn config) evs)) \<and>
         UpdateCharacteristic HumiditySensor c v \<notin> set (trace (run nts (constructor ns sn config) evs)) \<and>
         humidity (accessoryState (tick nts
           (Resolved \<lparr> status = st, data = JObj [(''temperature'', JNum t), (''humidity'', JNum h)] \<rparr>)
           (run nts (constructor ns sn config) evs))) = JNum h"
proof -
  let ?acc = "run nts (constructor ns sn config) evs"
  have off: "disableHumidity ?acc"
    by (simp add: constructor_disabled [OF assms])
  have none: "filter humidity_call (trace ?acc) = []"
    by (simp add: humidity_calls_run constructor_disabled [OF assms])
  have no: "x \<in> set (trace ?acc) \<Longrightarrow> \<not> humidity_call x" for x
    using none by (simp add: filter_empty_conv)
  have "OnGet HumiditySensor c \<notin> set (trace ?acc)"
    using no [of "OnGet HumiditySensor c"] by (auto simp: humidity_call_def)
  moreover have "UpdateCharacteristic HumiditySensor c v \<notin> set (trace ?acc)"
    using no [of "UpdateCharacteristic HumiditySensor c v"] by (auto simp: humidity_call_def)
  moreover have "HumiditySensor \<notin> set (fst (getServices ?acc))"
    using off by (simp add: getServices_def Let_def)
  moreover have "humidity (accessoryState (tick nts
           (Resolved \<lparr> status = st, data = JObj [(''temperature'', JNum t), (''humidity'', JNum h)] \<rparr>)
           ?acc)) = JNum h"
    by (simp add: tick_eq updateAllStates_Resolved debug_line_def js_concat_def fields_def field_def)
  ultimately show ?thesis by simp
qed

theorem humidity_disabled_witness:
  "config_disableHumidity (example_config\<lparr>config_disableHumidity := Some True\<rparr>) = Some True \<and>
   HumiditySensor \<notin> set (fst (getServices (run int_string
     (constructor (\<lambda>n. ''30'') (\<lambda>s. NaN) (example_config\<lparr>config_disableHumidity := Some True\<rparr>))
     [TimerTick (Resolved \<lparr> status = 200, data = JObj [(''temperature'', JNum 21), (''humidity'', JNum 40)] \<rparr>)]))) \<and>
   UpdateCharacteristic HumiditySensor CurrentRelativeHumidity (JNum 40) \<notin> set (trace (run int_string
     (constructor (\<lambda>n. ''30'') (\<lambda>s. NaN) (example_config\<lparr>config_disableHumidity := Some True\<rparr>))
     [TimerTick (Resolved \<lparr> status = 200, data = JObj [(''temperature'', JNum 21), (''humidity'', JNum 40)] \<rparr>)])) \<and>
   humidity (accessoryState (run int_string
     (constructor (\<lambda>n. ''30'') (\<lambda>s. NaN) (example_config\<lparr>config_disableHumidity := Some True\<rparr>))
     [TimerTick (Resolved \<lparr> status = 200, data = JObj [(''temperature'', JNum 21), (''humidity'', JNum 40)] \<rparr>)])) = JNum 40"
proof -
  have h: "config_disableHumidity (example_config\<lparr>config_disableHumidity := Some True\<rparr>) = Some True"
    by simp
  have s: "humidity (accessoryState (run int_string
     (constructor (\<lambda>n. ''30'') (\<lambda>s. NaN) (example_config\<lparr>config_disableHumidity := Some True\<rparr>))
     [TimerTick (Resolved \<lparr> status = 200, data = JObj [(''temperature'', JNum 21), (''humidity'', JNum 40)] \<rparr>)])) = JNum 40"
    using humidity_disabled [OF h, of int_string "\<lambda>n. ''30''" "\<lambda>s. NaN" "[]" _ _ 200 21 40]
    by (simp add: run_def)
  show ?thesis
    using h s humidity_disabled [OF h, of int_string "\<lambda>n. ''30''" "\<lambda>s. NaN"
      "[TimerTick (Resolved \<lparr> status = 200, data = JObj [(''temperature'', JNum 21), (''humidity'', JNum 40)] \<rparr>)]"
      CurrentRelativeHumidity "JNum 40"]
    by simp
qed

section \<open>The getters\<close>

text \<open>
  C10. For every state of the cache, getCurrentTemperature and
  getCurrentRelativeHumidity leave both cache fields unchanged; the only thing either
  changes is the log.
\<close>

theorem getters_read_only:
  "accessoryState (snd (getCurrentTemperature nts this)) = accessoryState this \<and>
   accessoryState (snd (getCurrentRelativeHumidity nts this)) = accessoryState this \<and>
   (snd (getCurrentTemperature nts this))\<lparr>trace := trace this\<rparr> = this \<and>
   (snd (getCurrentRelativeHumidity nts this))\<lparr>trace := trace this\<rparr> = this"
  by (simp add: getCurrentTemperature_def getCurrentRelativeHumidity_def emit_def Let_def
      split: sum.split)

end
